theory Spec2Isabelle
  imports Main "HOL-Library.Signed_Division" "HOL-Library.Monad_Syntax"
begin

section \<open>Errors\<close>

text \<open>
  The Go code reports every failure as an \<^verbatim>\<open>error\<close> value built with
  \<^verbatim>\<open>fmt.Errorf\<close> or handed through from a callee. One constructor per
  place where an error is created.
\<close>

datatype error =
    URLError                      \<comment> \<open>\<^verbatim>\<open>url.Parse\<close> failed\<close>
  | HostDiffers string string     \<comment> \<open>"%q differs from computed host %q"\<close>
  | PublicSuffixError             \<comment> \<open>\<^verbatim>\<open>publicsuffix.EffectiveTLDPlusOne\<close> failed\<close>
  | DomainDiffers string string   \<comment> \<open>"%q differs from computed eTLD+1 %q"\<close>
  | TimestampError                \<comment> \<open>\<^verbatim>\<open>timefmt.Parse\<close> failed\<close>
  | TimeParseError                \<comment> \<open>\<^verbatim>\<open>time.Parse\<close> failed\<close>
  | FractionalDifference int      \<comment> \<open>"time difference is fractional: %s"\<close>
  | AtoiError                     \<comment> \<open>\<^verbatim>\<open>strconv.Atoi\<close> failed\<close>
  | InconsistentWeekday int int   \<comment> \<open>"inconsistent weekday: %s and %s"\<close>
  | TimezoneDiffers int int       \<comment> \<open>"%s differs from timezone offset %s"\<close>
  | UnknownTransition             \<comment> \<open>\<^verbatim>\<open>chrome.PageTransitionFromString\<close> failed\<close>
  | WrongFieldCount               \<comment> \<open>a record that does not have 8 fields\<close>

section \<open>Go's \<^verbatim>\<open>time\<close> package\<close>

text \<open>
  A \<^verbatim>\<open>time.Time\<close> is an instant together with a location. The instant is kept
  as nanoseconds since 1970-01-01T00:00:00Z (an unbounded integer), the location
  as the offset in seconds east of UTC that is in force at that instant.
  A \<^verbatim>\<open>time.Duration\<close> is a signed 64-bit count of nanoseconds.
\<close>

record Time =
  unixNano :: int
  zoneOffset :: int

definition Millisecond :: int where "Millisecond = 1000000"
definition Second :: int where "Second = 1000000000"
definition maxDuration :: int where "maxDuration = 2 ^ 63 - 1"
definition minDuration :: int where "minDuration = - (2 ^ 63)"

text \<open>The zero \<^verbatim>\<open>time.Time{}\<close> is 0001-01-01 00:00:00 UTC.\<close>

definition zeroTime :: Time where
  "zeroTime = \<lparr>unixNano = - 62135596800 * Second, zoneOffset = 0\<rparr>"

definition Add :: "Time \<Rightarrow> int \<Rightarrow> Time" where
  "Add t d = t\<lparr>unixNano := unixNano t + d\<rparr>"

text \<open>\<^verbatim>\<open>t.In(time.FixedZone("", offset))\<close>: same instant, other location.\<close>

definition In_FixedZone :: "Time \<Rightarrow> int \<Rightarrow> Time" where
  "In_FixedZone t offset = t\<lparr>zoneOffset := offset\<rparr>"

text \<open>
  \<^verbatim>\<open>t.Truncate(time.Millisecond)\<close> removes \<^verbatim>\<open>t.nsec() % 1e6\<close>, where the
  nanosecond part of a \<^verbatim>\<open>Time\<close> is never negative.
\<close>

definition Truncate_Millisecond :: "Time \<Rightarrow> Time" where
  "Truncate_Millisecond t = t\<lparr>unixNano := unixNano t - unixNano t mod Millisecond\<rparr>"

text \<open>
  \<^verbatim>\<open>t.Sub(u)\<close>: the difference as a \<^verbatim>\<open>Duration\<close>; when it does not fit in
  63 bits the result is the largest or the smallest \<^verbatim>\<open>Duration\<close>.
\<close>

definition Sub :: "Time \<Rightarrow> Time \<Rightarrow> int" where
  "Sub t u =
     (let d = unixNano t - unixNano u
      in if maxDuration < d then maxDuration
         else if d < minDuration then minDuration
         else d)"

subsection \<open>Calendar\<close>

definition isLeap :: "int \<Rightarrow> bool" where
  "isLeap year = (year mod 4 = 0 \<and> (year mod 100 \<noteq> 0 \<or> year mod 400 = 0))"

text \<open>\<^verbatim>\<open>daysBefore[m]\<close>: days in a non-leap year before month \<open>m + 1\<close>.\<close>

definition daysBefore :: "int \<Rightarrow> int" where
  "daysBefore m =
     (if m \<le> 0 then 0 else if m = 1 then 31 else if m = 2 then 59
      else if m = 3 then 90 else if m = 4 then 120 else if m = 5 then 151
      else if m = 6 then 181 else if m = 7 then 212 else if m = 8 then 243
      else if m = 9 then 273 else if m = 10 then 304 else if m = 11 then 334
      else 365)"

definition daysIn :: "int \<Rightarrow> int \<Rightarrow> int" where
  "daysIn m year =
     (if m = 2 \<and> isLeap year then 29 else daysBefore m - daysBefore (m - 1))"

text \<open>Days from 1970-01-01 to the first of January of \<open>year\<close>.\<close>

definition daysSinceEpoch :: "int \<Rightarrow> int" where
  "daysSinceEpoch year =
     365 * (year - 1970)
       + ((year - 1) div 4 - (year - 1) div 100 + (year - 1) div 400) - 477"

text \<open>
  \<^verbatim>\<open>time.Date(year, month, day, hour, min, sec, nsec, time.UTC)\<close> for fields
  that are in range (\<^verbatim>\<open>time.Parse\<close> checks the ranges before it calls
  \<^verbatim>\<open>Date\<close>).
\<close>

definition Date :: "int \<Rightarrow> int \<Rightarrow> int \<Rightarrow> int \<Rightarrow> int \<Rightarrow> int \<Rightarrow> int \<Rightarrow> Time" where
  "Date year month day hour minute sec nsec =
     (let d = daysSinceEpoch year + daysBefore (month - 1)
                + (if isLeap year \<and> 3 \<le> month then 1 else 0) + (day - 1)
      in \<lparr>unixNano = (d * 86400 + hour * 3600 + minute * 60 + sec) * Second + nsec,
          zoneOffset = 0\<rparr>)"

text \<open>Seconds since 1970-01-01 00:00:00 of the wall clock at the time's location.\<close>

definition localSeconds :: "Time \<Rightarrow> int" where
  "localSeconds t = unixNano t div Second + zoneOffset t"

definition Nanosecond_of :: "Time \<Rightarrow> int" where
  "Nanosecond_of t = unixNano t mod Second"

text \<open>
  \<^verbatim>\<open>absDate\<close>: year and day of the year (from 0) of a day number counted from
  1970-01-01, through the cycles of 400, 100, 4 and 1 years.
\<close>

definition yearDay :: "int \<Rightarrow> int \<times> int" where
  "yearDay days =
     (let d = days + 719162;
          n400 = d div 146097;
          d = d - 146097 * n400;
          n100 = d div 36524;
          n100 = n100 - n100 div 4;
          d = d - 36524 * n100;
          n4 = d div 1461;
          d = d - 1461 * n4;
          n1 = d div 365;
          n1 = n1 - n1 div 4;
          d = d - 365 * n1
      in (1 + 400 * n400 + 100 * n100 + 4 * n4 + n1, d))"

text \<open>Month and day of the month from the year and the day of the year.\<close>

definition monthDay :: "int \<Rightarrow> int \<Rightarrow> int \<times> int" where
  "monthDay year yday =
     (if isLeap year \<and> yday = 31 + 29 - 1 then (2, 29)
      else
        let day = (if isLeap year \<and> yday > 31 + 29 - 1 then yday - 1 else yday);
            month = day div 31;
            end = daysBefore (month + 1)
        in if day \<ge> end then (month + 2, day - end + 1)
           else (month + 1, day - daysBefore month + 1))"

record Civil =
  Year :: int
  Month :: int
  Day :: int
  Hour :: int
  Minute :: int
  Sec :: int
  Nsec :: int

definition civil :: "Time \<Rightarrow> Civil" where
  "civil t =
     (let s = localSeconds t;
          (y, yd) = yearDay (s div 86400);
          (m, d) = monthDay y yd;
          r = s mod 86400
      in \<lparr>Year = y, Month = m, Day = d, Hour = r div 3600,
          Minute = (r mod 3600) div 60, Sec = r mod 60, Nsec = Nanosecond_of t\<rparr>)"

text \<open>\<^verbatim>\<open>t.Weekday()\<close>, Sunday = 0; 1970-01-01 was a Thursday.\<close>

definition Weekday :: "Time \<Rightarrow> int" where
  "Weekday t = (localSeconds t div 86400 + 4) mod 7"

subsection \<open>Decimal digits\<close>

definition isDigit :: "char \<Rightarrow> bool" where
  "isDigit c = (48 \<le> (of_char c :: nat) \<and> (of_char c :: nat) \<le> 57)"

definition isDigitAt :: "string \<Rightarrow> nat \<Rightarrow> bool" where
  "isDigitAt s i = (i < length s \<and> isDigit (s ! i))"

definition digitVal :: "char \<Rightarrow> int" where
  "digitVal c = int (of_char c) - 48"

definition digitChar :: "int \<Rightarrow> char" where
  "digitChar n = char_of (48 + n)"

definition decimal :: "string \<Rightarrow> int" where
  "decimal s = foldl (\<lambda>n c. n * 10 + digitVal c) 0 s"

text \<open>The decimal digits of a number that is not negative.\<close>

function digits :: "int \<Rightarrow> string" where
  "digits n = (if n < 10 then [digitChar n] else digits (n div 10) @ [digitChar (n mod 10)])"
  by pat_completeness auto
termination
  by (relation "measure nat") auto

declare digits.simps [simp del]

text \<open>\<^verbatim>\<open>appendInt(b, x, width)\<close>: a sign for a negative \<open>x\<close>, then the digits padded
  with zeros to \<open>width\<close>.\<close>

definition appendInt :: "int \<Rightarrow> nat \<Rightarrow> string" where
  "appendInt x width =
     (let ds = digits \<bar>x\<bar>
      in (if x < 0 then ''-'' else []) @ replicate (width - length ds) (CHR ''0'') @ ds)"

subsection \<open>\<^verbatim>\<open>Format\<close> and \<^verbatim>\<open>Parse\<close> with the layout \<^verbatim>\<open>2006-01-02 15:04:05.000\<close>\<close>

definition time_Format :: "Time \<Rightarrow> string" where
  "time_Format t =
     (let c = civil t
      in appendInt (Year c) 4 @ ''-'' @ appendInt (Month c) 2 @ ''-'' @ appendInt (Day c) 2
         @ '' '' @ appendInt (Hour c) 2 @ '':'' @ appendInt (Minute c) 2 @ '':''
         @ appendInt (Sec c) 2 @ ''.'' @ take 3 (appendInt (Nsec c) 9))"

definition check :: "bool \<Rightarrow> unit option" where
  "check b = (if b then Some () else None)"

text \<open>\<^verbatim>\<open>getnum(s, fixed)\<close>: one or two digits; two are required when \<open>fixed\<close>.\<close>

definition getnum :: "string \<Rightarrow> bool \<Rightarrow> (int \<times> string) option" where
  "getnum s fixed =
     (if \<not> isDigitAt s 0 then None
      else if \<not> isDigitAt s 1 then
        (if fixed then None else Some (digitVal (s ! 0), drop 1 s))
      else Some (digitVal (s ! 0) * 10 + digitVal (s ! 1), drop 2 s))"

text \<open>The \<^verbatim>\<open>atoi\<close> of package \<^verbatim>\<open>time\<close>: an optional sign, then digits only
  (it is called on at most four bytes here, so it cannot overflow).\<close>

definition time_atoi :: "string \<Rightarrow> int option" where
  "time_atoi s =
     (let neg = (s \<noteq> [] \<and> hd s = CHR ''-'');
          ds = (if s \<noteq> [] \<and> (hd s = CHR ''-'' \<or> hd s = CHR ''+'') then tl s else s)
      in if list_all isDigit ds then Some (if neg then - decimal ds else decimal ds)
         else None)"

text \<open>\<^verbatim>\<open>skip(value, prefix)\<close> for a one-byte prefix: a space in the layout
  matches any run of spaces, every other byte matches itself.\<close>

definition skipByte :: "char \<Rightarrow> string \<Rightarrow> string option" where
  "skipByte c v = (case v of [] \<Rightarrow> None | x # xs \<Rightarrow> if x = c then Some xs else None)"

definition skipSpace :: "string \<Rightarrow> string option" where
  "skipSpace v =
     (if v \<noteq> [] \<and> hd v \<noteq> CHR '' '' then None
      else Some (dropWhile (\<lambda>c. c = CHR '' '') v))"

definition parseLayout :: "string \<Rightarrow> Time option" where
  "parseLayout v0 = do {
     _ \<leftarrow> check (4 \<le> length v0 \<and> isDigitAt v0 0);
     year \<leftarrow> time_atoi (take 4 v0);
     v \<leftarrow> skipByte (CHR ''-'') (drop 4 v0);
     (month, v) \<leftarrow> getnum v True;
     _ \<leftarrow> check (0 < month \<and> month \<le> 12);
     v \<leftarrow> skipByte (CHR ''-'') v;
     (day, v) \<leftarrow> getnum v True;
     v \<leftarrow> skipSpace v;
     (hour, v) \<leftarrow> getnum v False;
     _ \<leftarrow> check (hour < 24);
     v \<leftarrow> skipByte (CHR '':'') v;
     (minute, v) \<leftarrow> getnum v True;
     _ \<leftarrow> check (minute < 60);
     v \<leftarrow> skipByte (CHR '':'') v;
     (sec, v) \<leftarrow> getnum v True;
     _ \<leftarrow> check (sec < 60);
     _ \<leftarrow> check (4 \<le> length v \<and> (v ! 0 = CHR ''.'' \<or> v ! 0 = CHR '',''));
     ms \<leftarrow> time_atoi (take 3 (drop 1 v));
     _ \<leftarrow> check (0 \<le> ms);
     _ \<leftarrow> check (drop 4 v = []);
     _ \<leftarrow> check (1 \<le> day \<and> day \<le> daysIn month year);
     Some (Date year month day hour minute sec (ms * 1000000))
   }"

text \<open>\<^verbatim>\<open>time.Parse("2006-01-02 15:04:05.000", value)\<close> returns the zero
  \<^verbatim>\<open>Time\<close> together with the error when the value does not match.\<close>

definition time_Parse :: "string \<Rightarrow> Time \<times> error option" where
  "time_Parse v =
     (case parseLayout v of
        None \<Rightarrow> (zeroTime, Some TimeParseError)
      | Some t \<Rightarrow> (t, None))"

section \<open>\<^verbatim>\<open>strconv\<close>\<close>

definition Itoa :: "int \<Rightarrow> string" where
  "Itoa x = (if x < 0 then ''-'' else []) @ digits \<bar>x\<bar>"

text \<open>\<^verbatim>\<open>strconv.Atoi\<close>: an optional sign and decimal digits, within 64 bits.\<close>

definition Atoi :: "string \<Rightarrow> error + int" where
  "Atoi s =
     (let ds = (if s \<noteq> [] \<and> (hd s = CHR ''-'' \<or> hd s = CHR ''+'') then tl s else s);
          n = decimal ds;
          v = (if s \<noteq> [] \<and> hd s = CHR ''-'' then - n else n)
      in if ds = [] \<or> \<not> list_all isDigit ds then Inl AtoiError
         else if v < - (2 ^ 63) \<or> 2 ^ 63 - 1 < v then Inl AtoiError
         else Inr v)"

section \<open>Collaborators outside the source files\<close>

text \<open>
  The codec calls functions that are not part of the files it lives in:
  \<^verbatim>\<open>publicsuffix.EffectiveTLDPlusOne\<close>,
  \<^verbatim>\<open>timefmt.Parse\<close> and \<^verbatim>\<open>timefmt.Format\<close> (with \<^verbatim>\<open>timefmt.Milli\<close>,
  \<^verbatim>\<open>timefmt.Unix\<close>), \<^verbatim>\<open>chrome.PageTransitionFromString\<close> with the
  \<^verbatim>\<open>String\<close> method of \<^verbatim>\<open>chrome.PageTransition\<close>, and \<^verbatim>\<open>normalizeTitle\<close>.
  They are parameters of the model; \<open>'tr\<close> is the type \<^verbatim>\<open>chrome.PageTransition\<close>.
\<close>

record 'tr deps =
  EffectiveTLDPlusOne :: "string \<Rightarrow> error + string"
  timefmt_Parse :: "string \<Rightarrow> error + Time"
  timefmt_Format :: "Time \<Rightarrow> string"
  PageTransitionFromString :: "string \<Rightarrow> error + 'tr"
  PageTransition_String :: "'tr \<Rightarrow> string"
  normalizeTitle :: "string \<Rightarrow> string"

section \<open>The analysis export codec\<close>

subsection \<open>\<^verbatim>\<open>parseTimes\<close>\<close>

text \<open>
  The error of \<^verbatim>\<open>time.Parse\<close> is bound to \<^verbatim>\<open>err\<close> and overwritten by the
  next assignment without being read, so \<open>local\<close> is the zero \<^verbatim>\<open>Time\<close> when
  the local time string does not match the layout. \<^verbatim>\<open>%\<close> and \<^verbatim>\<open>/\<close> of Go
  truncate towards zero.
\<close>

definition parseTimes :: "'tr deps \<Rightarrow> string \<Rightarrow> string \<Rightarrow> string \<Rightarrow> error + Time \<times> int" where
  "parseTimes D timeMsec timeLocal weekday =
     (case timefmt_Parse D timeMsec of
        Inl err \<Rightarrow> Inl err
      | Inr msec \<Rightarrow>
          let local = fst (time_Parse timeLocal);
              diff = Sub (Truncate_Millisecond msec) local
          in if diff smod Second \<noteq> 0 then Inl (FractionalDifference diff)
             else
               let offset = diff sdiv Second
               in (case Atoi weekday of
                     Inl err \<Rightarrow> Inl err
                   | Inr day \<Rightarrow>
                       let d = Weekday local
                       in if d \<noteq> day then Inl (InconsistentWeekday day d)
                          else Inr (msec, offset)))"

section \<open>\<^verbatim>\<open>net/url\<close>\<close>

text \<open>
  \<^verbatim>\<open>url.Parse\<close> and \<^verbatim>\<open>(*URL).Hostname\<close>. Of the fields of \<^verbatim>\<open>url.URL\<close>
  the model keeps the scheme, the opaque part, the host (with its port), the
  decoded path, the raw query and the decoded fragment. Strings are byte strings.
\<close>

record url_URL =
  Scheme :: string
  Opaque :: string
  Host :: string
  Path :: string
  RawQuery :: string
  Fragment :: string

definition byte :: "char \<Rightarrow> nat" where
  "byte c = of_char c"

definition isAlpha :: "char \<Rightarrow> bool" where
  "isAlpha c = ((97 \<le> byte c \<and> byte c \<le> 122) \<or> (65 \<le> byte c \<and> byte c \<le> 90))"

definition ishex :: "char \<Rightarrow> bool" where
  "ishex c = (isDigit c \<or> (97 \<le> byte c \<and> byte c \<le> 102) \<or> (65 \<le> byte c \<and> byte c \<le> 70))"

definition unhex :: "char \<Rightarrow> nat" where
  "unhex c =
     (if isDigit c then byte c - 48
      else if 97 \<le> byte c \<and> byte c \<le> 102 then byte c - 97 + 10
      else if 65 \<le> byte c \<and> byte c \<le> 70 then byte c - 65 + 10
      else 0)"

definition ToLower :: "string \<Rightarrow> string" where
  "ToLower s = map (\<lambda>c. if 65 \<le> byte c \<and> byte c \<le> 90 then char_of (byte c + 32) else c) s"

text \<open>\<^verbatim>\<open>strings.IndexByte\<close>, \<^verbatim>\<open>strings.LastIndexByte\<close>: \<open>-1\<close> when the byte is absent.\<close>

fun IndexByte :: "string \<Rightarrow> char \<Rightarrow> int" where
  "IndexByte [] c = - 1"
| "IndexByte (x # xs) c =
     (if x = c then 0 else let i = IndexByte xs c in if i = - 1 then - 1 else i + 1)"

definition LastIndexByte :: "string \<Rightarrow> char \<Rightarrow> int" where
  "LastIndexByte s c =
     (let i = IndexByte (rev s) c in if i = - 1 then - 1 else int (length s) - 1 - i)"

fun HasPrefix :: "string \<Rightarrow> string \<Rightarrow> bool" where
  "HasPrefix s [] = True"
| "HasPrefix [] (p # ps) = False"
| "HasPrefix (x # xs) (p # ps) = (x = p \<and> HasPrefix xs ps)"

text \<open>\<^verbatim>\<open>strings.Index\<close> for a non-empty substring.\<close>

fun Index :: "string \<Rightarrow> string \<Rightarrow> int" where
  "Index [] sub = - 1"
| "Index (x # xs) sub =
     (if HasPrefix (x # xs) sub then 0
      else let i = Index xs sub in if i = - 1 then - 1 else i + 1)"

text \<open>\<^verbatim>\<open>strings.Cut(s, sep)\<close> for a one-byte separator, without the flag.\<close>

definition Cut :: "string \<Rightarrow> char \<Rightarrow> string \<times> string" where
  "Cut s sep = (takeWhile (\<lambda>c. c \<noteq> sep) s, drop 1 (dropWhile (\<lambda>c. c \<noteq> sep) s))"

definition stringContainsCTLByte :: "string \<Rightarrow> bool" where
  "stringContainsCTLByte s = (\<exists>b \<in> set s. byte b < 32 \<or> byte b = 127)"

text \<open>\<^verbatim>\<open>getScheme\<close>: \<open>None\<close> is the error "missing protocol scheme".\<close>

fun getSchemeFrom :: "nat \<Rightarrow> string \<Rightarrow> string \<Rightarrow> (string \<times> string) option" where
  "getSchemeFrom i rawURL [] = Some ([], rawURL)"
| "getSchemeFrom i rawURL (c # cs) =
     (if isAlpha c then getSchemeFrom (i + 1) rawURL cs
      else if isDigit c \<or> c = CHR ''+'' \<or> c = CHR ''-'' \<or> c = CHR ''.'' then
        (if i = 0 then Some ([], rawURL) else getSchemeFrom (i + 1) rawURL cs)
      else if c = CHR '':'' then
        (if i = 0 then None else Some (take i rawURL, drop (i + 1) rawURL))
      else Some ([], rawURL))"

definition getScheme :: "string \<Rightarrow> (string \<times> string) option" where
  "getScheme rawURL = getSchemeFrom 0 rawURL rawURL"

datatype encoding = encodePath | encodeHost | encodeZone | encodeUserPassword | encodeFragment

text \<open>\<^verbatim>\<open>shouldEscape(c, encodeHost)\<close>; \<^verbatim>\<open>encodeZone\<close> gives the same answer.\<close>

definition shouldEscapeHost :: "char \<Rightarrow> bool" where
  "shouldEscapeHost c =
     (\<not> (isAlpha c \<or> isDigit c
         \<or> c \<in> set (''!$&()*+,;=:[]<>'' @ [CHR 0x27, CHR 0x22])
         \<or> c \<in> set ''-_.~''))"

text \<open>\<^verbatim>\<open>unescape(s, mode)\<close>; \<open>None\<close> is an \<^verbatim>\<open>EscapeError\<close> or an
  \<^verbatim>\<open>InvalidHostError\<close>. (The mode for query components, where \<open>+\<close> is a space,
  is not used by \<^verbatim>\<open>Parse\<close>.)\<close>

fun unescape :: "encoding \<Rightarrow> string \<Rightarrow> string option" where
  "unescape mode [] = Some []"
| "unescape mode (c # s) =
     (if c = CHR ''%'' then
        (case s of
           h1 # h2 # s' \<Rightarrow>
             if \<not> ishex h1 \<or> \<not> ishex h2 then None
             else if mode = encodeHost \<and> unhex h1 < 8 \<and> [h1, h2] \<noteq> ''25'' then None
             else if mode = encodeZone \<and> [h1, h2] \<noteq> ''25''
                     \<and> unhex h1 * 16 + unhex h2 \<noteq> 32
                     \<and> shouldEscapeHost (char_of (unhex h1 * 16 + unhex h2)) then None
             else map_option (\<lambda>r. char_of (unhex h1 * 16 + unhex h2) # r) (unescape mode s')
         | _ \<Rightarrow> None)
      else if (mode = encodeHost \<or> mode = encodeZone) \<and> byte c < 128 \<and> shouldEscapeHost c
        then None
      else map_option (\<lambda>r. c # r) (unescape mode s))"

definition validOptionalPort :: "string \<Rightarrow> bool" where
  "validOptionalPort port =
     (case port of [] \<Rightarrow> True | c # ds \<Rightarrow> c = CHR '':'' \<and> list_all isDigit ds)"

definition validUserinfo :: "string \<Rightarrow> bool" where
  "validUserinfo s =
     list_all (\<lambda>r. isAlpha r \<or> isDigit r
                   \<or> r \<in> set (''-._:~!$&()*+,;=%@'' @ [CHR 0x27])) s"

definition parseHost :: "string \<Rightarrow> string option" where
  "parseHost host =
     (if HasPrefix host ''['' then
        (let i = LastIndexByte host (CHR '']'')
         in if i < 0 then None
            else if \<not> validOptionalPort (drop (nat i + 1) host) then None
            else
              let zone = Index (take (nat i) host) ''%25''
              in if zone \<ge> 0 then
                   (case unescape encodeHost (take (nat zone) host) of
                      None \<Rightarrow> None
                    | Some host1 \<Rightarrow>
                       (case unescape encodeZone (drop (nat zone) (take (nat i) host)) of
                          None \<Rightarrow> None
                        | Some host2 \<Rightarrow>
                           (case unescape encodeHost (drop (nat i) host) of
                              None \<Rightarrow> None
                            | Some host3 \<Rightarrow> Some (host1 @ host2 @ host3))))
                 else unescape encodeHost host)
      else
        (let i = LastIndexByte host (CHR '':'')
         in if i \<noteq> - 1 \<and> \<not> validOptionalPort (drop (nat i) host) then None
            else unescape encodeHost host))"

text \<open>\<^verbatim>\<open>parseAuthority\<close>: the host, after the user information has been checked.\<close>

definition parseAuthority :: "string \<Rightarrow> string option" where
  "parseAuthority authority =
     (let i = LastIndexByte authority (CHR ''@'')
      in case parseHost (if i < 0 then authority else drop (nat i + 1) authority) of
           None \<Rightarrow> None
         | Some host \<Rightarrow>
             if i < 0 then Some host
             else
               let userinfo = take (nat i) authority
               in if \<not> validUserinfo userinfo then None
                  else
                    let (username, password) = Cut userinfo (CHR '':'')
                    in if unescape encodeUserPassword username = None
                          \<or> unescape encodeUserPassword password = None then None
                       else Some host)"

definition url_parse :: "string \<Rightarrow> url_URL option" where
  "url_parse rawURL =
     (let empty = \<lparr>Scheme = [], Opaque = [], Host = [], Path = [], RawQuery = [], Fragment = []\<rparr>
      in if stringContainsCTLByte rawURL then None
         else if rawURL = ''*'' then Some (empty\<lparr>Path := ''*''\<rparr>)
         else
           case getScheme rawURL of
             None \<Rightarrow> None
           | Some (scheme, rest0) \<Rightarrow>
               let url = empty\<lparr>Scheme := ToLower scheme\<rparr>;
                   (rest, query) =
                     (if rest0 \<noteq> [] \<and> last rest0 = CHR ''?''
                         \<and> length (filter (\<lambda>c. c = CHR ''?'') rest0) = 1
                      then (butlast rest0, [])
                      else Cut rest0 (CHR ''?''));
                   url = url\<lparr>RawQuery := query\<rparr>
               in if \<not> HasPrefix rest ''/'' \<and> Scheme url \<noteq> [] then Some (url\<lparr>Opaque := rest\<rparr>)
                  else if \<not> HasPrefix rest ''/'' \<and> CHR '':'' \<in> set (fst (Cut rest (CHR ''/'')))
                    then None
                  else if (Scheme url \<noteq> [] \<or> \<not> HasPrefix rest ''///'') \<and> HasPrefix rest ''//''
                    then
                      (let (authority, path) =
                             (takeWhile (\<lambda>c. c \<noteq> CHR ''/'') (drop 2 rest),
                              dropWhile (\<lambda>c. c \<noteq> CHR ''/'') (drop 2 rest))
                       in case parseAuthority authority of
                            None \<Rightarrow> None
                          | Some host \<Rightarrow>
                              map_option (\<lambda>p. url\<lparr>Host := host, Path := p\<rparr>)
                                (unescape encodePath path))
                  else map_option (\<lambda>p. url\<lparr>Path := p\<rparr>) (unescape encodePath rest))"

definition url_Parse :: "string \<Rightarrow> error + url_URL" where
  "url_Parse rawURL =
     (let (u, frag) = Cut rawURL (CHR ''#'')
      in case url_parse u of
           None \<Rightarrow> Inl URLError
         | Some url \<Rightarrow>
             if frag = [] then Inr url
             else (case unescape encodeFragment frag of
                     None \<Rightarrow> Inl URLError
                   | Some f \<Rightarrow> Inr (url\<lparr>Fragment := f\<rparr>)))"

text \<open>\<^verbatim>\<open>u.Hostname()\<close>: the host without a valid port and without the brackets
  of an IPv6 literal.\<close>

definition Hostname :: "url_URL \<Rightarrow> string" where
  "Hostname u =
     (let colon = LastIndexByte (Host u) (CHR '':'');
          host = (if colon \<noteq> - 1 \<and> validOptionalPort (drop (nat colon) (Host u))
                  then take (nat colon) (Host u) else Host u)
      in if HasPrefix host ''['' \<and> host \<noteq> [] \<and> last host = CHR '']''
         then butlast (tl host) else host)"

subsection \<open>\<^verbatim>\<open>checkURL\<close>\<close>

definition checkURL :: "'tr deps \<Rightarrow> string \<Rightarrow> string \<Rightarrow> string \<Rightarrow> error option" where
  "checkURL D rawURL host domain =
     (case (if host \<noteq> [] then
              (case url_Parse rawURL of
                 Inl err \<Rightarrow> Some err
               | Inr u \<Rightarrow>
                   let h = Hostname u
                   in if h \<noteq> host \<and> IndexByte (Path u) (CHR ''@'') = - 1
                      then Some (HostDiffers host h) else None)
            else None) of
        Some err \<Rightarrow> Some err
      | None \<Rightarrow>
          if domain \<noteq> [] then
            (case EffectiveTLDPlusOne D host of
               Inl err \<Rightarrow> Some err
             | Inr tld1 \<Rightarrow>
                 if tld1 \<noteq> domain then Some (DomainDiffers domain tld1) else None)
          else None)"

subsection \<open>\<^verbatim>\<open>readAnalysisVisit\<close>\<close>

text \<open>The fields of \<^verbatim>\<open>Reader\<close> that the function reads and writes: the number
  of the record being read, the export time and the timezone offset in seconds.\<close>

record Reader =
  recordNo :: int
  time :: Time
  tz :: int

record 'tr Visit =
  URL :: string
  VisitTime :: Time
  Transition :: 'tr
  PageTitle :: string

definition readAnalysisVisit ::
  "'tr deps \<Rightarrow> Reader \<Rightarrow> string \<Rightarrow> string \<Rightarrow> string \<Rightarrow> string \<Rightarrow> string \<Rightarrow> string \<Rightarrow> string \<Rightarrow> string
     \<Rightarrow> (error + 'tr Visit) \<times> Reader" where
  "readAnalysisVisit D r rawURL host domain timeMsec timeLocal weekday transition title =
     (case checkURL D rawURL host domain of
        Some err \<Rightarrow> (Inl err, r)
      | None \<Rightarrow>
         (case parseTimes D timeMsec timeLocal weekday of
            Inl err \<Rightarrow> (Inl err, r)
          | Inr (t, offset) \<Rightarrow>
              if recordNo r \<noteq> 1 \<and> offset \<noteq> tz r then (Inl (TimezoneDiffers offset (tz r)), r)
              else
                let r' = (if recordNo r = 1
                          then r\<lparr>time := In_FixedZone (Add (time r) (- (offset * Second))) offset,
                                 tz := offset\<rparr>
                          else r)
                in (case PageTransitionFromString D transition of
                      Inl err \<Rightarrow> (Inl err, r')
                    | Inr typ \<Rightarrow>
                        (Inr \<lparr>URL = rawURL, VisitTime = t, Transition = typ,
                              PageTitle = normalizeTitle D title\<rparr>, r'))))"

subsection \<open>\<^verbatim>\<open>writeAnalysisVisit\<close>\<close>

text \<open>A \<^verbatim>\<open>*time.Location\<close> gives the offset in force at an instant (in seconds
  since 1970-01-01 UTC); \<^verbatim>\<open>t.In(loc)\<close> is the same instant at that offset.\<close>

type_synonym Location = "int \<Rightarrow> int"

definition In :: "Time \<Rightarrow> Location \<Rightarrow> Time" where
  "In t l = t\<lparr>zoneOffset := l (unixNano t div Second)\<rparr>"

record Writer =
  loc :: Location

definition writeAnalysisVisit :: "'tr deps \<Rightarrow> Writer \<Rightarrow> 'tr Visit \<Rightarrow> error + string list" where
  "writeAnalysisVisit D w v =
     (case url_Parse (URL v) of
        Inl err \<Rightarrow> Inl err
      | Inr u \<Rightarrow>
          let host = Hostname u
          in (case (if IndexByte host (CHR ''.'') \<noteq> - 1 then EffectiveTLDPlusOne D host
                    else Inr []) of
                Inl err \<Rightarrow> Inl err
              | Inr tld1 \<Rightarrow>
                  let local = In (VisitTime v) (loc w)
                  in Inr [URL v, host, tld1, timefmt_Format D (VisitTime v),
                          time_Format local, Itoa (Weekday local),
                          PageTransition_String D (Transition v), PageTitle v]))"

section \<open>The record loop and concrete collaborators\<close>

text \<open>
  Modelled from the spec: the loop of \<^verbatim>\<open>Reader\<close> that reads the records of one
  export is not among the source files. The spec has a session whose record count
  starts at 0 and is incremented per call, one call per record of 8 fields, and the
  session is abandoned at the first failure. \<^verbatim>\<open>readAnalysisVisit\<close> tests
  \<^verbatim>\<open>r.record == 1\<close> for the first record, so the count is incremented before
  the call. The result holds the visits decoded before the failure, and the failure
  with the number of its record, if there is one.
\<close>

definition decodeRecord :: "'tr deps \<Rightarrow> Reader \<Rightarrow> string list \<Rightarrow> (error + 'tr Visit) \<times> Reader" where
  "decodeRecord D r fs =
     (case fs of
        [rawURL, host, domain, timeMsec, timeLocal, weekday, transition, title] \<Rightarrow>
          readAnalysisVisit D r rawURL host domain timeMsec timeLocal weekday transition title
      | _ \<Rightarrow> (Inl WrongFieldCount, r))"

fun decodeSession ::
  "'tr deps \<Rightarrow> Reader \<Rightarrow> string list list \<Rightarrow> ('tr Visit list \<times> (int \<times> error) option) \<times> Reader" where
  "decodeSession D r [] = (([], None), r)"
| "decodeSession D r (fs # rest) =
     (let r1 = r\<lparr>recordNo := recordNo r + 1\<rparr>
      in case decodeRecord D r1 fs of
           (Inl err, r2) \<Rightarrow> (([], Some (recordNo r1, err)), r2)
         | (Inr v, r2) \<Rightarrow>
             (case decodeSession D r2 rest of
                ((vs, failure), r3) \<Rightarrow> ((v # vs, failure), r3)))"

text \<open>
  Modelled from the spec: \<^verbatim>\<open>timefmt.Parse\<close> and \<^verbatim>\<open>timefmt.Format\<close> with
  \<^verbatim>\<open>timefmt.Milli\<close> and \<^verbatim>\<open>timefmt.Unix\<close> are not among the source files. The
  spec has the field as "decimal Unix-epoch milliseconds, fractional allowed", parsed
  with "sub-millisecond precision retained"; the source gives
  \<^verbatim>\<open>1384634958041.754\<close> as an example. Here: an optional minus sign, digits, and
  optionally a point and more digits, read to the nanosecond, in UTC.
\<close>

definition sample_timefmt_Parse :: "string \<Rightarrow> error + Time" where
  "sample_timefmt_Parse s =
     (let neg = (s \<noteq> [] \<and> hd s = CHR ''-'');
          body = (if neg then tl s else s);
          ip = takeWhile (\<lambda>c. c \<noteq> CHR ''.'') body;
          rest = dropWhile (\<lambda>c. c \<noteq> CHR ''.'') body;
          fp = drop 1 rest
      in if ip = [] \<or> \<not> list_all isDigit ip \<or> \<not> list_all isDigit fp \<or> (rest \<noteq> [] \<and> fp = [])
         then Inl TimestampError
         else
           let ns = decimal ip * 1000000 + decimal (take 6 (fp @ ''000000''))
           in Inr \<lparr>unixNano = (if neg then - ns else ns), zoneOffset = 0\<rparr>)"

definition sample_timefmt_Format :: "Time \<Rightarrow> string" where
  "sample_timefmt_Format t =
     (let n = unixNano t;
          frac = \<bar>n\<bar> mod 1000000
      in (if n < 0 then ''-'' else []) @ digits (\<bar>n\<bar> div 1000000)
         @ (if frac = 0 then []
            else ''.'' @ rev (dropWhile (\<lambda>c. c = CHR ''0'') (rev (appendInt frac 6)))))"

text \<open>
  Modelled from the spec: \<^verbatim>\<open>chrome.PageTransition\<close>, its \<^verbatim>\<open>String\<close> method and
  \<^verbatim>\<open>chrome.PageTransitionFromString\<close> are not among the source files. The spec has
  an "enumerated page-transition type" whose string is a "token from a fixed
  vocabulary" ("link click, typed address"), and both the spec and the source say that
  the string holds the core type only, so that qualifiers are lost. Here: a core
  type with a number for the qualifier bits.
\<close>

datatype coreTransition = Link | Typed

type_synonym sampleTransition = "coreTransition \<times> nat"

definition sample_String :: "sampleTransition \<Rightarrow> string" where
  "sample_String t = (case fst t of Link \<Rightarrow> ''link'' | Typed \<Rightarrow> ''typed'')"

definition sample_FromString :: "string \<Rightarrow> error + sampleTransition" where
  "sample_FromString s =
     (if s = ''link'' then Inr (Link, 0)
      else if s = ''typed'' then Inr (Typed, 0)
      else Inl UnknownTransition)"

text \<open>
  Modelled from the spec: \<^verbatim>\<open>normalizeTitle\<close> is not among the source files. The
  spec has it "trim/replace control characters", idempotent. Here: every control
  byte becomes a space.
\<close>

definition sample_normalizeTitle :: "string \<Rightarrow> string" where
  "sample_normalizeTitle s = map (\<lambda>c. if byte c < 32 \<or> byte c = 127 then CHR '' '' else c) s"

text \<open>
  \<^verbatim>\<open>publicsuffix.EffectiveTLDPlusOne\<close> of \<^verbatim>\<open>golang.org/x/net\<close> on an excerpt
  of the public suffix list (plain rules only): the public suffix is the longest
  rule that ends the domain at a label boundary, or the last label when no rule
  does; the result is the suffix with one more label.
\<close>

definition suffixRules :: "string list" where
  "suffixRules = [''com'', ''org'', ''net'', ''uk'', ''co.uk'']"

fun splitLabels :: "string \<Rightarrow> string list" where
  "splitLabels [] = [[]]"
| "splitLabels (c # s) =
     (if c = CHR ''.'' then [] # splitLabels s
      else (case splitLabels s of l # ls \<Rightarrow> (c # l) # ls | [] \<Rightarrow> [[c]]))"

fun joinLabels :: "string list \<Rightarrow> string" where
  "joinLabels [] = []"
| "joinLabels [l] = l"
| "joinLabels (l # ls) = l @ ''.'' @ joinLabels ls"

text \<open>The number of labels of the public suffix of a domain given by its labels.\<close>

fun suffixLabels :: "string list \<Rightarrow> nat" where
  "suffixLabels [] = 0"
| "suffixLabels (l # ls) =
     (if joinLabels (l # ls) \<in> set suffixRules then length (l # ls)
      else if ls = [] then 1
      else suffixLabels ls)"

definition sample_EffectiveTLDPlusOne :: "string \<Rightarrow> error + string" where
  "sample_EffectiveTLDPlusOne domain =
     (let ls = splitLabels domain;
          n = suffixLabels ls
      in if [] \<in> set ls then Inl PublicSuffixError
         else if length ls \<le> n then Inl PublicSuffixError
         else Inr (joinLabels (drop (length ls - n - 1) ls)))"

definition sampleDeps :: "sampleTransition deps" where
  "sampleDeps =
     \<lparr>EffectiveTLDPlusOne = sample_EffectiveTLDPlusOne,
      timefmt_Parse = sample_timefmt_Parse,
      timefmt_Format = sample_timefmt_Format,
      PageTransitionFromString = sample_FromString,
      PageTransition_String = sample_String,
      normalizeTitle = sample_normalizeTitle\<rparr>"

text \<open>A reader at its first record with an export time of 2013-11-17 00:00:00 UTC,
  and a writer for a location five hours west of UTC and one for UTC.\<close>

definition firstReader :: Reader where
  "firstReader = \<lparr>recordNo = 1, time = \<lparr>unixNano = 1384646400 * Second, zoneOffset = 0\<rparr>, tz = 0\<rparr>"

definition newReader :: Reader where
  "newReader = firstReader\<lparr>recordNo := 0\<rparr>"

definition westWriter :: Writer where
  "westWriter = \<lparr>loc = (\<lambda>_. - 18000)\<rparr>"

definition utcWriter :: Writer where
  "utcWriter = \<lparr>loc = (\<lambda>_. 0)\<rparr>"

subsection \<open>Records of a session\<close>

text \<open>
  A record \<open>resolves\<close> with an offset when it has 8 fields, passes \<^verbatim>\<open>checkURL\<close>
  and \<^verbatim>\<open>parseTimes\<close> returns that offset for it; it is \<open>wellFormed\<close> when its
  transition is known as well. A visit \<open>agrees\<close> with a record and an offset when it
  has the URL of the record and its instant, truncated to the millisecond, is the
  local time of the record plus the offset.
\<close>

definition resolves :: "'tr deps \<Rightarrow> string list \<Rightarrow> int \<Rightarrow> bool" where
  "resolves D fs offset =
     (case fs of
        [rawURL, host, domain, timeMsec, timeLocal, weekday, transition, title] \<Rightarrow>
          checkURL D rawURL host domain = None
          \<and> (case parseTimes D timeMsec timeLocal weekday of
                Inl err \<Rightarrow> False
              | Inr (t, offset') \<Rightarrow> offset' = offset)
      | _ \<Rightarrow> False)"

definition wellFormed :: "'tr deps \<Rightarrow> string list \<Rightarrow> int \<Rightarrow> bool" where
  "wellFormed D fs offset =
     (resolves D fs offset
      \<and> (case PageTransitionFromString D (fs ! 6) of Inl err \<Rightarrow> False | Inr typ \<Rightarrow> True))"

definition agrees :: "int \<Rightarrow> string list \<Rightarrow> 'tr Visit \<Rightarrow> bool" where
  "agrees offset fs v =
     (URL v = fs ! 0
      \<and> unixNano (Truncate_Millisecond (VisitTime v))
          = unixNano (fst (time_Parse (fs ! 4))) + offset * Second)"

text \<open>Three records: two with the local time six hours behind UTC, one with the
  local time five hours behind.\<close>

definition record1 :: "string list" where
  "record1 = [''http://example.com/'', ''example.com'', ''example.com'',
              ''1384634958041.754'', ''2013-11-16 14:49:18.041'', ''6'', ''link'', ''t'']"

definition record2 :: "string list" where
  "record2 = [''http://localhost/x'', ''localhost'', [],
              ''1384634959000'', ''2013-11-16 14:49:19.000'', ''6'', ''typed'', []]"

definition driftRecord :: "string list" where
  "driftRecord = [''http://example.com/'', ''example.com'', ''example.com'',
                  ''1384634958041.754'', ''2013-11-16 15:49:18.041'', ''6'', ''link'', ''t'']"

section \<open>Auxiliary facts\<close>

lemma IndexByte_absent: "(IndexByte s c = - 1) = (c \<notin> set s)"
proof (induction s)
  case Nil
  show ?case by simp
next
  case (Cons x xs)
  have nonneg: "\<And>ys. - 1 \<le> IndexByte ys c"
  proof -
    fix ys show "- 1 \<le> IndexByte ys c" by (induction ys) (auto simp: Let_def)
  qed
  have "IndexByte xs c + 1 \<noteq> - 1" using nonneg [of xs] by arith
  with Cons show ?case by (auto simp: Let_def)
qed

lemma smod_Second_zero: "(d smod Second = 0) = (d mod Second = 0)"
  by (auto simp: smod_int_alt_def Second_def sgn_if zmod_zminus1_eq_if abs_if split: if_splits)

lemma sdiv_Second_exact: "(k * Second) sdiv Second = k"
  by (simp add: signed_divide_int_def Second_def sgn_mult abs_mult sgn_if)

lemma smod_Second_mult: "(k * Second) smod Second = 0"
  by (simp add: smod_Second_zero)

lemma Weekday_range: "0 \<le> Weekday t \<and> Weekday t \<le> 6"
  by (simp add: Weekday_def)

lemma checkURL_host_fails:
  "host \<noteq> [] \<Longrightarrow> url_Parse rawURL = Inr u \<Longrightarrow> Hostname u \<noteq> host \<Longrightarrow>
   CHR ''@'' \<notin> set (Path u) \<Longrightarrow>
     checkURL D rawURL host domain = Some (HostDiffers host (Hostname u))"
  by (simp add: checkURL_def Let_def IndexByte_absent)

lemma checkURL_host_passes:
  "host \<noteq> [] \<Longrightarrow> url_Parse rawURL = Inr u \<Longrightarrow>
   Hostname u = host \<or> CHR ''@'' \<in> set (Path u) \<Longrightarrow>
     checkURL D rawURL host domain
       = (if domain = [] then None
          else case EffectiveTLDPlusOne D host of
                 Inl err \<Rightarrow> Some err
               | Inr tld1 \<Rightarrow> if tld1 \<noteq> domain then Some (DomainDiffers domain tld1) else None)"
  by (auto simp: checkURL_def Let_def IndexByte_absent)

lemma checkURL_accepts:
  "host \<noteq> [] \<Longrightarrow>
     (checkURL D rawURL host domain = None)
       = ((\<exists>u. url_Parse rawURL = Inr u \<and> (Hostname u = host \<or> CHR ''@'' \<in> set (Path u)))
          \<and> (domain = [] \<or> EffectiveTLDPlusOne D host = Inr domain))"
  by (auto simp: checkURL_def Let_def IndexByte_absent split: sum.splits)

section \<open>Properties of the codec\<close>

subsection \<open>The URL check\<close>

text \<open>
  Claim C4, as amended. \<^verbatim>\<open>checkURL\<close> parses the URL only when the host field
  is not blank. For every record whose URL field \<^verbatim>\<open>url.Parse\<close> rejects:
  \<^item> when the host field is not blank, \<^verbatim>\<open>checkURL\<close> returns the error of the
    parser, and \<^verbatim>\<open>readAnalysisVisit\<close> returns it too and leaves the reader as it
    was, whatever the domain field and the other fields are;
  \<^item> when the host field is blank and the domain field is not, \<^verbatim>\<open>checkURL\<close>
    and \<^verbatim>\<open>readAnalysisVisit\<close> fail as well, with the error of
    \<^verbatim>\<open>EffectiveTLDPlusOne\<close> for the empty host (\<^verbatim>\<open>publicsuffix\<close> derives no
    eTLD+1 for the empty domain);
  \<^item> when both are blank, \<^verbatim>\<open>checkURL\<close> succeeds.
  With a blank host the URL is not parsed at all: \<^verbatim>\<open>checkURL\<close> gives the same
  result for every URL.
\<close>

theorem checkURL_unparseable:
  "url_Parse rawURL = Inl e \<Longrightarrow>
     (host \<noteq> [] \<longrightarrow>
        checkURL D rawURL host domain = Some e
        \<and> readAnalysisVisit D r rawURL host domain timeMsec timeLocal weekday transition title
            = (Inl e, r))
   \<and> (host = [] \<and> domain \<noteq> [] \<longrightarrow>
        (\<forall>e0. EffectiveTLDPlusOne D [] = Inl e0 \<longrightarrow>
           checkURL D rawURL host domain = Some e0
           \<and> readAnalysisVisit D r rawURL host domain timeMsec timeLocal weekday transition title
               = (Inl e0, r)))
   \<and> (host = [] \<and> domain = [] \<longrightarrow> checkURL D rawURL host domain = None)
   \<and> (\<forall>u. checkURL D u [] domain = checkURL D rawURL [] domain)"
  by (simp add: checkURL_def readAnalysisVisit_def)

theorem checkURL_unparseable_witness:
  "url_Parse '':'' = Inl URLError
   \<and> checkURL sampleDeps '':'' ''x'' [] = Some URLError
   \<and> readAnalysisVisit sampleDeps firstReader '':'' ''x'' []
         ''1384634958041.754'' ''2013-11-16 14:49:18.041'' ''6'' ''link'' ''t''
       = (Inl URLError, firstReader)
   \<and> EffectiveTLDPlusOne sampleDeps [] = Inl PublicSuffixError
   \<and> checkURL sampleDeps '':'' [] ''example.com'' = Some PublicSuffixError
   \<and> readAnalysisVisit sampleDeps firstReader '':'' [] ''example.com''
         ''1384634958041.754'' ''2013-11-16 14:49:18.041'' ''6'' ''link'' ''t''
       = (Inl PublicSuffixError, firstReader)
   \<and> checkURL sampleDeps '':'' [] [] = None
   \<and> checkURL sampleDeps ''http://example.com/'' [] ''example.com''
       = checkURL sampleDeps '':'' [] ''example.com''"
proof -
  have h: "url_Parse '':'' = Inl URLError" by code_simp
  have e0: "EffectiveTLDPlusOne sampleDeps [] = Inl PublicSuffixError" by code_simp
  note T = checkURL_unparseable [OF h, where D = sampleDeps and r = firstReader
      and timeMsec = "''1384634958041.754''" and timeLocal = "''2013-11-16 14:49:18.041''"
      and weekday = "''6''" and transition = "''link''" and title = "''t''"]
  from T [where host = "''x''" and domain = "[]"]
  have a: "checkURL sampleDeps '':'' ''x'' [] = Some URLError
     \<and> readAnalysisVisit sampleDeps firstReader '':'' ''x'' []
         ''1384634958041.754'' ''2013-11-16 14:49:18.041'' ''6'' ''link'' ''t''
       = (Inl URLError, firstReader)" by simp
  from T [where host = "[]" and domain = "''example.com''"] e0
  have b: "checkURL sampleDeps '':'' [] ''example.com'' = Some PublicSuffixError
     \<and> readAnalysisVisit sampleDeps firstReader '':'' [] ''example.com''
         ''1384634958041.754'' ''2013-11-16 14:49:18.041'' ''6'' ''link'' ''t''
       = (Inl PublicSuffixError, firstReader)" by simp
  from T [where host = "[]" and domain = "[]"]
  have c: "checkURL sampleDeps '':'' [] [] = None" by simp
  from T [where host = "[]" and domain = "''example.com''"]
  have d: "checkURL sampleDeps ''http://example.com/'' [] ''example.com''
       = checkURL sampleDeps '':'' [] ''example.com''" by blast
  from h e0 a b c d show ?thesis by blast
qed

text \<open>
  As stated for every record, blank host included, the property does not hold: the
  string \<^verbatim>\<open>:\<close> is rejected by \<^verbatim>\<open>url.Parse\<close> ("missing protocol scheme"),
  but with a blank host and a blank domain \<^verbatim>\<open>checkURL\<close> accepts it and
  \<^verbatim>\<open>readAnalysisVisit\<close> returns a visit with that URL.
\<close>

theorem checkURL_blank_host_counterexample:
  "url_Parse '':'' = Inl URLError
   \<and> checkURL sampleDeps '':'' [] [] = None
   \<and> fst (readAnalysisVisit sampleDeps firstReader '':'' [] []
              ''1384634958041.754'' ''2013-11-16 14:49:18.041'' ''6'' ''link'' ''t'')
       = Inr \<lparr>URL = '':'', VisitTime = \<lparr>unixNano = 1384634958041754000, zoneOffset = 0\<rparr>,
              Transition = (Link, 0), PageTitle = ''t''\<rparr>"
  by (intro conjI; code_simp)

text \<open>
  Claim C5. For every record with a host field that is not blank, whatever its
  domain field is: when the URL does not parse, \<^verbatim>\<open>checkURL\<close> returns the error
  of the parser; when it parses, its hostname is not the host field and its path has
  no \<^verbatim>\<open>@\<close>, \<^verbatim>\<open>checkURL\<close> returns the error of the host comparison; and
  when it parses and its hostname is the host field or its path contains \<^verbatim>\<open>@\<close>,
  the comparison of the host succeeds and the result of \<^verbatim>\<open>checkURL\<close> is that of
  the check of the domain alone. So \<^verbatim>\<open>checkURL\<close> accepts the record exactly when
  the host comparison succeeds and the domain is blank or is the eTLD+1 of the host.
  In particular the URL
  \<^verbatim>\<open>https://web.archive.org/save/https://medium.com/@user/article\<close> passes with
  the host \<^verbatim>\<open>user\<close>, and a URL of the same site without \<^verbatim>\<open>@\<close> in its
  path fails with that host.
\<close>

theorem checkURL_host_comparison:
  "(host \<noteq> [] \<longrightarrow>
      (\<forall>e. url_Parse rawURL = Inl e \<longrightarrow> checkURL D rawURL host domain = Some e)
      \<and> (\<forall>u. url_Parse rawURL = Inr u \<and> Hostname u \<noteq> host \<and> CHR ''@'' \<notin> set (Path u) \<longrightarrow>
            checkURL D rawURL host domain = Some (HostDiffers host (Hostname u)))
      \<and> (\<forall>u. url_Parse rawURL = Inr u \<and> (Hostname u = host \<or> CHR ''@'' \<in> set (Path u)) \<longrightarrow>
            checkURL D rawURL host domain
              = (if domain = [] then None
                 else case EffectiveTLDPlusOne D host of
                        Inl err \<Rightarrow> Some err
                      | Inr tld1 \<Rightarrow>
                          if tld1 \<noteq> domain then Some (DomainDiffers domain tld1) else None))
      \<and> ((checkURL D rawURL host domain = None)
           = ((\<exists>u. url_Parse rawURL = Inr u
                    \<and> (Hostname u = host \<or> CHR ''@'' \<in> set (Path u)))
              \<and> (domain = [] \<or> EffectiveTLDPlusOne D host = Inr domain))))
   \<and> checkURL D ''https://web.archive.org/save/https://medium.com/@user/article'' ''user'' [] = None
   \<and> checkURL D ''https://web.archive.org/save/article'' ''user'' domain
        = Some (HostDiffers ''user'' ''web.archive.org'')"
proof (intro conjI impI allI)
  fix e assume "host \<noteq> []" and "url_Parse rawURL = Inl e"
  then show "checkURL D rawURL host domain = Some e" by (simp add: checkURL_def)
next
  fix u assume "host \<noteq> []"
    and "url_Parse rawURL = Inr u \<and> Hostname u \<noteq> host \<and> CHR ''@'' \<notin> set (Path u)"
  then show "checkURL D rawURL host domain = Some (HostDiffers host (Hostname u))"
    by (simp add: checkURL_host_fails)
next
  fix u assume "host \<noteq> []"
    and "url_Parse rawURL = Inr u \<and> (Hostname u = host \<or> CHR ''@'' \<in> set (Path u))"
  then have a: "host \<noteq> []" "url_Parse rawURL = Inr u"
      "Hostname u = host \<or> CHR ''@'' \<in> set (Path u)" by blast+
  show "checkURL D rawURL host domain
              = (if domain = [] then None
                 else case EffectiveTLDPlusOne D host of
                        Inl err \<Rightarrow> Some err
                      | Inr tld1 \<Rightarrow>
                          if tld1 \<noteq> domain then Some (DomainDiffers domain tld1) else None)"
    by (rule checkURL_host_passes [OF a])
next
  assume "host \<noteq> []"
  then show "(checkURL D rawURL host domain = None)
           = ((\<exists>u. url_Parse rawURL = Inr u
                    \<and> (Hostname u = host \<or> CHR ''@'' \<in> set (Path u)))
              \<and> (domain = [] \<or> EffectiveTLDPlusOne D host = Inr domain))"
    by (rule checkURL_accepts)
next
  show "checkURL D ''https://web.archive.org/save/https://medium.com/@user/article'' ''user'' [] = None"
    by code_simp
next
  have p: "url_Parse ''https://web.archive.org/save/article''
             = Inr \<lparr>Scheme = ''https'', Opaque = [], Host = ''web.archive.org'',
                    Path = ''/save/article'', RawQuery = [], Fragment = []\<rparr>" by code_simp
  have h: "Hostname \<lparr>Scheme = ''https'', Opaque = [], Host = ''web.archive.org'',
                    Path = ''/save/article'', RawQuery = [], Fragment = []\<rparr>
             = ''web.archive.org''" by code_simp
  have n: "''user'' \<noteq> []" by simp
  have "checkURL D ''https://web.archive.org/save/article'' ''user'' domain
        = Some (HostDiffers ''user'' (Hostname \<lparr>Scheme = ''https'', Opaque = [],
                    Host = ''web.archive.org'', Path = ''/save/article'', RawQuery = [],
                    Fragment = []\<rparr>))"
    by (rule checkURL_host_fails [OF n p]) (simp_all add: h)
  then show "checkURL D ''https://web.archive.org/save/article'' ''user'' domain
        = Some (HostDiffers ''user'' ''web.archive.org'')" by (simp only: h)
qed

theorem checkURL_host_comparison_witness:
  "''user'' \<noteq> []
   \<and> url_Parse ''https://medium.com/@user/article''
       = Inr \<lparr>Scheme = ''https'', Opaque = [], Host = ''medium.com'',
              Path = ''/@user/article'', RawQuery = [], Fragment = []\<rparr>
   \<and> CHR ''@'' \<in> set ''/@user/article''
   \<and> checkURL sampleDeps ''https://medium.com/@user/article'' ''user'' [] = None
   \<and> ''example.com'' \<noteq> []
   \<and> url_Parse ''http://evil.org/''
       = Inr \<lparr>Scheme = ''http'', Opaque = [], Host = ''evil.org'',
              Path = ''/'', RawQuery = [], Fragment = []\<rparr>
   \<and> checkURL sampleDeps ''http://evil.org/'' ''example.com'' ''example.com''
       = Some (HostDiffers ''example.com'' ''evil.org'')"
proof -
  let ?u1 = "\<lparr>Scheme = ''https'', Opaque = [], Host = ''medium.com'',
              Path = ''/@user/article'', RawQuery = [], Fragment = []\<rparr>"
  let ?u2 = "\<lparr>Scheme = ''http'', Opaque = [], Host = ''evil.org'',
              Path = ''/'', RawQuery = [], Fragment = []\<rparr>"
  have h1: "''user'' \<noteq> []" by simp
  have h2: "''example.com'' \<noteq> []" by simp
  have p1: "url_Parse ''https://medium.com/@user/article'' = Inr ?u1" by code_simp
  have p2: "url_Parse ''http://evil.org/'' = Inr ?u2" by code_simp
  have a1: "CHR ''@'' \<in> set ''/@user/article''" by simp
  have n2: "Hostname ?u2 = ''evil.org''" by code_simp
  have m2: "CHR ''@'' \<notin> set (Path ?u2)" by simp
  from checkURL_host_comparison [where host = "''user''" and D = sampleDeps
      and rawURL = "''https://medium.com/@user/article''" and domain = "[]"] h1 p1 a1
  have r1: "checkURL sampleDeps ''https://medium.com/@user/article'' ''user'' [] = None"
    by simp
  have d2: "Hostname ?u2 \<noteq> ''example.com''" by (simp add: n2)
  from checkURL_host_comparison [where host = "''example.com''" and D = sampleDeps
      and rawURL = "''http://evil.org/''" and domain = "''example.com''"] h2 p2 d2 m2
  have "checkURL sampleDeps ''http://evil.org/'' ''example.com'' ''example.com''
       = Some (HostDiffers ''example.com'' (Hostname ?u2))" by simp
  then have r2: "checkURL sampleDeps ''http://evil.org/'' ''example.com'' ''example.com''
       = Some (HostDiffers ''example.com'' ''evil.org'')" by (simp only: n2)
  show ?thesis by (intro conjI) (fact h1 p1 a1 r1 h2 p2 r2)+
qed

subsection \<open>The domain written by \<^verbatim>\<open>writeAnalysisVisit\<close>\<close>

text \<open>
  Claim C8, as amended. For every visit whose URL parses, \<^verbatim>\<open>writeAnalysisVisit\<close>
  writes the hostname of the URL as the host, and as the domain the empty string
  when the hostname has no \<^verbatim>\<open>.\<close> in it. When the hostname has a \<^verbatim>\<open>.\<close>,
  it writes the effective TLD+1 of the hostname if \<^verbatim>\<open>EffectiveTLDPlusOne\<close>
  derives one, and otherwise writes nothing and returns the error of
  \<^verbatim>\<open>EffectiveTLDPlusOne\<close>. The host \<^verbatim>\<open>localhost\<close> gives the empty domain,
  the host \<^verbatim>\<open>sub.example.com\<close> gives \<^verbatim>\<open>example.com\<close>.
\<close>

theorem writeAnalysisVisit_domain:
  "url_Parse (URL v) = Inr u \<Longrightarrow>
     (CHR ''.'' \<notin> set (Hostname u) \<longrightarrow>
        (\<exists>fs. writeAnalysisVisit D w v = Inr fs \<and> length fs = 8
              \<and> fs ! 1 = Hostname u \<and> fs ! 2 = []))
   \<and> (CHR ''.'' \<in> set (Hostname u) \<longrightarrow>
        (\<forall>tld1. EffectiveTLDPlusOne D (Hostname u) = Inr tld1 \<longrightarrow>
           (\<exists>fs. writeAnalysisVisit D w v = Inr fs \<and> length fs = 8
                 \<and> fs ! 1 = Hostname u \<and> fs ! 2 = tld1))
        \<and> (\<forall>e. EffectiveTLDPlusOne D (Hostname u) = Inl e \<longrightarrow>
              writeAnalysisVisit D w v = Inl e))"
  by (simp add: writeAnalysisVisit_def Let_def IndexByte_absent)

theorem writeAnalysisVisit_domain_witness:
  "(\<exists>u. url_Parse ''http://localhost/x'' = Inr u \<and> Hostname u = ''localhost'')
   \<and> (\<exists>fs. writeAnalysisVisit sampleDeps westWriter
              \<lparr>URL = ''http://localhost/x'',
               VisitTime = \<lparr>unixNano = 1384634958041754000, zoneOffset = 0\<rparr>,
               Transition = (Link, 0), PageTitle = ''t''\<rparr> = Inr fs \<and> fs ! 2 = [])
   \<and> (\<exists>u. url_Parse ''http://sub.example.com/x'' = Inr u \<and> Hostname u = ''sub.example.com'')
   \<and> (\<exists>fs. writeAnalysisVisit sampleDeps westWriter
              \<lparr>URL = ''http://sub.example.com/x'',
               VisitTime = \<lparr>unixNano = 1384634958041754000, zoneOffset = 0\<rparr>,
               Transition = (Link, 0), PageTitle = ''t''\<rparr> = Inr fs \<and> fs ! 2 = ''example.com'')"
proof -
  let ?u1 = "\<lparr>Scheme = ''http'', Opaque = [], Host = ''localhost'', Path = ''/x'',
              RawQuery = [], Fragment = []\<rparr>"
  let ?u2 = "\<lparr>Scheme = ''http'', Opaque = [], Host = ''sub.example.com'', Path = ''/x'',
              RawQuery = [], Fragment = []\<rparr>"
  let ?v1 = "\<lparr>URL = ''http://localhost/x'',
               VisitTime = \<lparr>unixNano = 1384634958041754000, zoneOffset = 0\<rparr>,
               Transition = (Link, 0::nat), PageTitle = ''t''\<rparr>"
  let ?v2 = "\<lparr>URL = ''http://sub.example.com/x'',
               VisitTime = \<lparr>unixNano = 1384634958041754000, zoneOffset = 0\<rparr>,
               Transition = (Link, 0::nat), PageTitle = ''t''\<rparr>"
  have p1: "url_Parse (URL ?v1) = Inr ?u1" by code_simp
  have p2: "url_Parse (URL ?v2) = Inr ?u2" by code_simp
  have h1: "Hostname ?u1 = ''localhost''" by code_simp
  have h2: "Hostname ?u2 = ''sub.example.com''" by code_simp
  have d1: "CHR ''.'' \<notin> set (Hostname ?u1)" by code_simp
  have d2: "CHR ''.'' \<in> set (Hostname ?u2)" by code_simp
  have e2: "EffectiveTLDPlusOne sampleDeps (Hostname ?u2) = Inr ''example.com''" by code_simp
  from writeAnalysisVisit_domain [OF p1, of sampleDeps westWriter] d1
  have r1: "\<exists>fs. writeAnalysisVisit sampleDeps westWriter ?v1 = Inr fs \<and> fs ! 2 = []"
    by blast
  from writeAnalysisVisit_domain [OF p2, of sampleDeps westWriter] d2 e2
  have r2: "\<exists>fs. writeAnalysisVisit sampleDeps westWriter ?v2 = Inr fs \<and> fs ! 2 = ''example.com''"
    by blast
  from p1 p2 h1 h2 r1 r2 show ?thesis by simp
qed

text \<open>
  As stated for every visit whose URL parses, the property does not hold: the URL
  \<^verbatim>\<open>http://co.uk/\<close> parses and its hostname has a \<^verbatim>\<open>.\<close>, but the
  hostname is a public suffix itself, no eTLD+1 is derived for it, and
  \<^verbatim>\<open>writeAnalysisVisit\<close> returns the error instead of the fields.
\<close>

theorem writeAnalysisVisit_domain_counterexample:
  "url_Parse ''http://co.uk/''
       = Inr \<lparr>Scheme = ''http'', Opaque = [], Host = ''co.uk'',
              Path = ''/'', RawQuery = [], Fragment = []\<rparr>
   \<and> Hostname \<lparr>Scheme = ''http'', Opaque = [], Host = ''co.uk'',
              Path = ''/'', RawQuery = [], Fragment = []\<rparr> = ''co.uk''
   \<and> CHR ''.'' \<in> set ''co.uk''
   \<and> writeAnalysisVisit sampleDeps westWriter
        \<lparr>URL = ''http://co.uk/'',
         VisitTime = \<lparr>unixNano = 1384634958041754000, zoneOffset = 0\<rparr>,
         Transition = (Link, 0), PageTitle = ''t''\<rparr> = Inl PublicSuffixError"
  by (intro conjI; code_simp)

subsection \<open>The state of the reader\<close>

text \<open>
  Claim C9. A call of \<^verbatim>\<open>readAnalysisVisit\<close> for a record that is not the first
  of the session (the record number is not 1) leaves the reader as it was, the
  learned timezone offset and the export time included, whether it returns a visit or
  an error.
\<close>

theorem readAnalysisVisit_later_record:
  "recordNo r \<noteq> 1 \<Longrightarrow>
     snd (readAnalysisVisit D r rawURL host domain timeMsec timeLocal weekday transition title) = r"
  by (simp add: readAnalysisVisit_def split: option.splits sum.splits prod.splits)

theorem readAnalysisVisit_later_record_witness:
  "recordNo (firstReader\<lparr>recordNo := 2, tz := 21600\<rparr>) \<noteq> 1
   \<and> readAnalysisVisit sampleDeps (firstReader\<lparr>recordNo := 2, tz := 21600\<rparr>)
        ''http://example.com/'' ''example.com'' ''example.com''
        ''1384634958041.754'' ''2013-11-16 14:49:18.041'' ''6'' ''link'' ''t''
      = (Inr \<lparr>URL = ''http://example.com/'',
              VisitTime = \<lparr>unixNano = 1384634958041754000, zoneOffset = 0\<rparr>,
              Transition = (Link, 0), PageTitle = ''t''\<rparr>,
         firstReader\<lparr>recordNo := 2, tz := 21600\<rparr>)
   \<and> readAnalysisVisit sampleDeps (firstReader\<lparr>recordNo := 2, tz := 21600\<rparr>)
        ''http://example.com/'' ''example.com'' ''example.com''
        ''1384634958041.754'' ''2013-11-16 15:49:18.041'' ''6'' ''link'' ''t''
      = (Inl (TimezoneDiffers 18000 21600), firstReader\<lparr>recordNo := 2, tz := 21600\<rparr>)"
proof -
  let ?r = "firstReader\<lparr>recordNo := 2, tz := 21600\<rparr>"
  have h: "recordNo ?r \<noteq> 1" by simp
  have a: "fst (readAnalysisVisit sampleDeps ?r
        ''http://example.com/'' ''example.com'' ''example.com''
        ''1384634958041.754'' ''2013-11-16 14:49:18.041'' ''6'' ''link'' ''t'')
      = Inr \<lparr>URL = ''http://example.com/'',
              VisitTime = \<lparr>unixNano = 1384634958041754000, zoneOffset = 0\<rparr>,
              Transition = (Link, 0), PageTitle = ''t''\<rparr>" by code_simp
  have b: "fst (readAnalysisVisit sampleDeps ?r
        ''http://example.com/'' ''example.com'' ''example.com''
        ''1384634958041.754'' ''2013-11-16 15:49:18.041'' ''6'' ''link'' ''t'')
      = Inl (TimezoneDiffers 18000 21600)" by code_simp
  from readAnalysisVisit_later_record [OF h] a b h show ?thesis
    by (metis prod.collapse)
qed

text \<open>
  Claim C10. For the first record, \<^verbatim>\<open>readAnalysisVisit\<close> stores the offset and
  shifts the export time before it looks at the transition: when the URL and the
  times of the first record are consistent and its transition is not known, the call
  returns the error of \<^verbatim>\<open>PageTransitionFromString\<close> and a reader whose offset
  and export time have already been changed. Such a record exists.
\<close>

theorem readAnalysisVisit_first_record_not_atomic:
  "recordNo r = 1 \<Longrightarrow> checkURL D rawURL host domain = None \<Longrightarrow>
   parseTimes D timeMsec timeLocal weekday = Inr (t, offset) \<Longrightarrow>
   PageTransitionFromString D transition = Inl e \<Longrightarrow>
     readAnalysisVisit D r rawURL host domain timeMsec timeLocal weekday transition title
       = (Inl e, r\<lparr>time := In_FixedZone (Add (time r) (- (offset * Second))) offset,
                   tz := offset\<rparr>)"
  by (simp add: readAnalysisVisit_def)

theorem readAnalysisVisit_first_record_not_atomic_witness:
  "recordNo firstReader = 1
   \<and> checkURL sampleDeps ''http://example.com/'' ''example.com'' ''example.com'' = None
   \<and> parseTimes sampleDeps ''1384634958041.754'' ''2013-11-16 14:49:18.041'' ''6''
        = Inr (\<lparr>unixNano = 1384634958041754000, zoneOffset = 0\<rparr>, 21600)
   \<and> PageTransitionFromString sampleDeps ''bogus'' = Inl UnknownTransition
   \<and> readAnalysisVisit sampleDeps firstReader
        ''http://example.com/'' ''example.com'' ''example.com''
        ''1384634958041.754'' ''2013-11-16 14:49:18.041'' ''6'' ''bogus'' ''t''
      = (Inl UnknownTransition,
         \<lparr>recordNo = 1, time = \<lparr>unixNano = 1384624800000000000, zoneOffset = 21600\<rparr>,
          tz = 21600\<rparr>)
   \<and> tz firstReader = 0
   \<and> time firstReader = \<lparr>unixNano = 1384646400000000000, zoneOffset = 0\<rparr>"
proof -
  have h1: "recordNo firstReader = 1" by (simp add: firstReader_def)
  have h2: "checkURL sampleDeps ''http://example.com/'' ''example.com'' ''example.com'' = None"
    by code_simp
  have h3: "parseTimes sampleDeps ''1384634958041.754'' ''2013-11-16 14:49:18.041'' ''6''
        = Inr (\<lparr>unixNano = 1384634958041754000, zoneOffset = 0\<rparr>, 21600)" by code_simp
  have h4: "PageTransitionFromString sampleDeps ''bogus'' = Inl UnknownTransition" by code_simp
  have s: "firstReader\<lparr>time := In_FixedZone (Add (time firstReader) (- (21600 * Second))) 21600,
                      tz := 21600\<rparr>
           = \<lparr>recordNo = 1, time = \<lparr>unixNano = 1384624800000000000, zoneOffset = 21600\<rparr>,
              tz = 21600\<rparr>"
    by (simp add: firstReader_def In_FixedZone_def Add_def Second_def)
  have t: "tz firstReader = 0 \<and> time firstReader = \<lparr>unixNano = 1384646400000000000, zoneOffset = 0\<rparr>"
    by (simp add: firstReader_def Second_def)
  from readAnalysisVisit_first_record_not_atomic [OF h1 h2 h3 h4, of "''t''"] h1 h2 h3 h4 s t
  show ?thesis by simp
qed

subsection \<open>The times of a record\<close>

lemma sdiv_Second_div: "d mod Second = 0 \<Longrightarrow> d sdiv Second = d div Second"
proof -
  assume "d mod Second = 0"
  then have "Second dvd d" by (simp add: mod_eq_0_iff_dvd)
  then obtain k where "d = Second * k" by (rule dvdE)
  then have "d = k * Second" by simp
  moreover have "Second \<noteq> 0" by (simp add: Second_def)
  ultimately show ?thesis by (simp add: sdiv_Second_exact)
qed

lemma Sub_fractional:
  "(Sub t u mod Second \<noteq> 0)
     = ((unixNano t - unixNano u) mod Second \<noteq> 0
        \<or> unixNano t - unixNano u < minDuration \<or> maxDuration < unixNano t - unixNano u)"
proof -
  have m1: "maxDuration mod Second \<noteq> 0" by (simp add: maxDuration_def Second_def)
  have m2: "minDuration mod Second \<noteq> 0" by (simp add: minDuration_def Second_def)
  show ?thesis
  proof (cases "maxDuration < unixNano t - unixNano u")
    case True
    with m1 show ?thesis by (simp add: Sub_def)
  next
    case False
    show ?thesis
    proof (cases "unixNano t - unixNano u < minDuration")
      case True
      with False m2 show ?thesis by (simp add: Sub_def)
    next
      case False
      with \<open>\<not> maxDuration < unixNano t - unixNano u\<close> show ?thesis by (simp add: Sub_def)
    qed
  qed
qed

lemma Sub_in_range:
  "minDuration \<le> unixNano t - unixNano u \<Longrightarrow> unixNano t - unixNano u \<le> maxDuration \<Longrightarrow>
     Sub t u = unixNano t - unixNano u"
  by (simp add: Sub_def)

text \<open>
  Claim C6, as amended. Let \<open>delta\<close> be the difference between the millisecond time,
  truncated to the millisecond, and the local time. When \<open>delta\<close> is not a whole
  number of seconds, or is not within the range of a \<^verbatim>\<open>time.Duration\<close> (about 292
  years either way, where \<^verbatim>\<open>Sub\<close> returns the largest or the smallest
  \<^verbatim>\<open>Duration\<close>), \<^verbatim>\<open>parseTimes\<close> fails with "time difference is fractional",
  and so does \<^verbatim>\<open>readAnalysisVisit\<close>. When \<open>delta\<close> is a whole number of seconds
  within that range and the weekday field agrees with the local time (the check that
  follows), that number is the offset returned; and whenever \<^verbatim>\<open>parseTimes\<close>
  returns an offset, \<open>delta\<close> is that number of seconds and is within the range.
\<close>

theorem parseTimes_offset:
  "timefmt_Parse D timeMsec = Inr msec \<Longrightarrow>
   delta = unixNano (Truncate_Millisecond msec) - unixNano (fst (time_Parse timeLocal)) \<Longrightarrow>
     ((delta mod Second \<noteq> 0 \<or> delta < minDuration \<or> maxDuration < delta) \<longrightarrow>
        (\<exists>d. parseTimes D timeMsec timeLocal weekday = Inl (FractionalDifference d))
        \<and> (\<exists>e. fst (readAnalysisVisit D r rawURL host domain timeMsec timeLocal weekday
                      transition title) = Inl e))
   \<and> (\<forall>k. delta = k * Second \<and> minDuration \<le> delta \<and> delta \<le> maxDuration
            \<and> Atoi weekday = Inr (Weekday (fst (time_Parse timeLocal))) \<longrightarrow>
          parseTimes D timeMsec timeLocal weekday = Inr (msec, k))
   \<and> (\<forall>t k. parseTimes D timeMsec timeLocal weekday = Inr (t, k) \<longrightarrow>
          t = msec \<and> delta = k * Second \<and> minDuration \<le> delta \<and> delta \<le> maxDuration)"
proof (intro conjI impI allI)
  assume p: "timefmt_Parse D timeMsec = Inr msec"
    and d: "delta = unixNano (Truncate_Millisecond msec) - unixNano (fst (time_Parse timeLocal))"
  let ?s = "Sub (Truncate_Millisecond msec) (fst (time_Parse timeLocal))"
  {
    assume f: "delta mod Second \<noteq> 0 \<or> delta < minDuration \<or> maxDuration < delta"
    with d have "?s mod Second \<noteq> 0" by (simp add: Sub_fractional)
    with p have pt: "parseTimes D timeMsec timeLocal weekday = Inl (FractionalDifference ?s)"
      by (simp add: parseTimes_def Let_def smod_Second_zero)
    then show "\<exists>d. parseTimes D timeMsec timeLocal weekday = Inl (FractionalDifference d)"
      by blast
    show "\<exists>e. fst (readAnalysisVisit D r rawURL host domain timeMsec timeLocal weekday
                      transition title) = Inl e"
      by (cases "checkURL D rawURL host domain") (simp_all add: readAnalysisVisit_def pt)
  }
  {
    fix k
    assume a: "delta = k * Second \<and> minDuration \<le> delta \<and> delta \<le> maxDuration
            \<and> Atoi weekday = Inr (Weekday (fst (time_Parse timeLocal)))"
    with d have s: "?s = k * Second" by (simp add: Sub_in_range)
    from a have w: "Atoi weekday = Inr (Weekday (fst (time_Parse timeLocal)))" by simp
    from p s w show "parseTimes D timeMsec timeLocal weekday = Inr (msec, k)"
      by (simp add: parseTimes_def Let_def smod_Second_mult sdiv_Second_exact)
  }
  {
    fix t k
    assume s: "parseTimes D timeMsec timeLocal weekday = Inr (t, k)"
    from s p have z: "?s mod Second = 0"
      by (auto simp: parseTimes_def Let_def smod_Second_zero split: if_splits)
    from s p z show "t = msec"
      by (auto simp: parseTimes_def Let_def smod_Second_zero split: if_splits sum.splits)
    from z d have rng: "delta mod Second = 0 \<and> minDuration \<le> delta \<and> delta \<le> maxDuration"
      using Sub_fractional [of "Truncate_Millisecond msec" "fst (time_Parse timeLocal)"]
      by auto
    then show "minDuration \<le> delta" and "delta \<le> maxDuration" by simp_all
    from rng d have sd: "?s = delta" by (simp add: Sub_in_range)
    from s p z have "k = ?s div Second"
      by (auto simp: parseTimes_def Let_def smod_Second_zero sdiv_Second_div
               split: if_splits sum.splits)
    with sd rng show "delta = k * Second" by (simp add: mod_eq_0_iff_dvd)
  }
qed

theorem parseTimes_offset_witness:
  "timefmt_Parse sampleDeps ''1623060000500''
      = Inr \<lparr>unixNano = 1623060000500000000, zoneOffset = 0\<rparr>
   \<and> unixNano (Truncate_Millisecond \<lparr>unixNano = 1623060000500000000, zoneOffset = 0\<rparr>)
        - unixNano (fst (time_Parse ''2021-06-07 10:00:00.000'')) = 500000000
   \<and> 500000000 mod Second \<noteq> 0
   \<and> (\<exists>d. parseTimes sampleDeps ''1623060000500'' ''2021-06-07 10:00:00.000'' ''1''
        = Inl (FractionalDifference d))
   \<and> timefmt_Parse sampleDeps ''1384634958041.754''
      = Inr \<lparr>unixNano = 1384634958041754000, zoneOffset = 0\<rparr>
   \<and> unixNano (Truncate_Millisecond \<lparr>unixNano = 1384634958041754000, zoneOffset = 0\<rparr>)
        - unixNano (fst (time_Parse ''2013-11-16 14:49:18.041'')) = 21600 * Second
   \<and> minDuration \<le> 21600 * Second \<and> 21600 * Second \<le> maxDuration
   \<and> Atoi ''6'' = Inr (Weekday (fst (time_Parse ''2013-11-16 14:49:18.041'')))
   \<and> parseTimes sampleDeps ''1384634958041.754'' ''2013-11-16 14:49:18.041'' ''6''
        = Inr (\<lparr>unixNano = 1384634958041754000, zoneOffset = 0\<rparr>, 21600)"
proof -
  have p1: "timefmt_Parse sampleDeps ''1623060000500''
      = Inr \<lparr>unixNano = 1623060000500000000, zoneOffset = 0\<rparr>" by code_simp
  have d1: "unixNano (Truncate_Millisecond \<lparr>unixNano = 1623060000500000000, zoneOffset = 0\<rparr>)
        - unixNano (fst (time_Parse ''2021-06-07 10:00:00.000'')) = 500000000" by code_simp
  have f1: "(500000000::int) mod Second \<noteq> 0" by (simp add: Second_def)
  have p2: "timefmt_Parse sampleDeps ''1384634958041.754''
      = Inr \<lparr>unixNano = 1384634958041754000, zoneOffset = 0\<rparr>" by code_simp
  have d2: "unixNano (Truncate_Millisecond \<lparr>unixNano = 1384634958041754000, zoneOffset = 0\<rparr>)
        - unixNano (fst (time_Parse ''2013-11-16 14:49:18.041'')) = 21600 * Second" by code_simp
  have lo: "minDuration \<le> 21600 * Second" by (simp add: minDuration_def Second_def)
  have hi: "21600 * Second \<le> maxDuration" by (simp add: maxDuration_def Second_def)
  have a2: "Atoi ''6'' = Inr (Weekday (fst (time_Parse ''2013-11-16 14:49:18.041'')))"
    by code_simp
  have c1: "(500000000::int) mod Second \<noteq> 0 \<or> 500000000 < minDuration \<or> maxDuration < 500000000"
    using f1 by simp
  have r1: "\<exists>d. parseTimes sampleDeps ''1623060000500'' ''2021-06-07 10:00:00.000'' ''1''
        = Inl (FractionalDifference d)"
    by (rule parseTimes_offset [OF p1 d1 [symmetric], THEN conjunct1, THEN mp, OF c1,
          THEN conjunct1])
  have c2: "21600 * Second = 21600 * Second \<and> minDuration \<le> 21600 * Second
            \<and> 21600 * Second \<le> maxDuration
            \<and> Atoi ''6'' = Inr (Weekday (fst (time_Parse ''2013-11-16 14:49:18.041'')))"
    using lo hi a2 by simp
  have r2: "parseTimes sampleDeps ''1384634958041.754'' ''2013-11-16 14:49:18.041'' ''6''
        = Inr (\<lparr>unixNano = 1384634958041754000, zoneOffset = 0\<rparr>, 21600)"
    by (rule parseTimes_offset [OF p2 d2 [symmetric], THEN conjunct2, THEN conjunct1,
          THEN spec, THEN mp, OF c2])
  show ?thesis
    by (intro conjI) (fact p1 d1 f1 r1 p2 d2 lo hi a2 r2)+
qed

text \<open>
  As stated, the second half of the property does not hold. The millisecond time
  \<^verbatim>\<open>1623060000000\<close> (2021-06-07 10:00:00 UTC) and the local time
  \<^verbatim>\<open>1700-06-07 10:00:00.000\<close> differ by 10129795200 seconds exactly, and
  1700-06-07 was a Monday as the weekday field \<^verbatim>\<open>1\<close> says, but the difference
  is more than a \<^verbatim>\<open>Duration\<close> holds and \<^verbatim>\<open>parseTimes\<close> reports a fractional
  difference. And with a difference of 0 seconds and a weekday field that disagrees
  with the local time, no offset is returned either.
\<close>

theorem parseTimes_offset_counterexample:
  "timefmt_Parse sampleDeps ''1623060000000''
      = Inr \<lparr>unixNano = 1623060000000000000, zoneOffset = 0\<rparr>
   \<and> snd (time_Parse ''1700-06-07 10:00:00.000'') = None
   \<and> unixNano (Truncate_Millisecond \<lparr>unixNano = 1623060000000000000, zoneOffset = 0\<rparr>)
        - unixNano (fst (time_Parse ''1700-06-07 10:00:00.000'')) = 10129795200 * Second
   \<and> Atoi ''1'' = Inr (Weekday (fst (time_Parse ''1700-06-07 10:00:00.000'')))
   \<and> parseTimes sampleDeps ''1623060000000'' ''1700-06-07 10:00:00.000'' ''1''
        = Inl (FractionalDifference maxDuration)
   \<and> unixNano (Truncate_Millisecond \<lparr>unixNano = 1623060000000000000, zoneOffset = 0\<rparr>)
        - unixNano (fst (time_Parse ''2021-06-07 10:00:00.000'')) = 0 * Second
   \<and> parseTimes sampleDeps ''1623060000000'' ''2021-06-07 10:00:00.000'' ''0''
        = Inl (InconsistentWeekday 0 1)"
  by (intro conjI; code_simp)

text \<open>
  Claim C7. \<^verbatim>\<open>parseTimes\<close> fails when \<^verbatim>\<open>strconv.Atoi\<close> rejects the weekday
  field, when the number is not one of 0 to 6, and when it differs from the weekday
  of the local time (0 is Sunday); it returns a result only when the number is that
  weekday. 2021-06-07 was a Monday: with the weekday field \<^verbatim>\<open>0\<close> the record is
  rejected as inconsistent, with \<^verbatim>\<open>1\<close> it is accepted.
\<close>

theorem parseTimes_weekday:
  "(\<forall>e. Atoi weekday = Inl e \<longrightarrow> (\<exists>e'. parseTimes D timeMsec timeLocal weekday = Inl e'))
   \<and> (\<forall>day. Atoi weekday = Inr day \<and> (day < 0 \<or> 6 < day) \<longrightarrow>
         (\<exists>e'. parseTimes D timeMsec timeLocal weekday = Inl e'))
   \<and> (\<forall>day. Atoi weekday = Inr day \<and> day \<noteq> Weekday (fst (time_Parse timeLocal)) \<longrightarrow>
         (\<exists>e'. parseTimes D timeMsec timeLocal weekday = Inl e'))
   \<and> (\<forall>t offset. parseTimes D timeMsec timeLocal weekday = Inr (t, offset) \<longrightarrow>
         Atoi weekday = Inr (Weekday (fst (time_Parse timeLocal))))"
proof -
  have ok: "Atoi weekday = Inr (Weekday (fst (time_Parse timeLocal)))"
    if "parseTimes D timeMsec timeLocal weekday = Inr (t, offset)" for t offset
    using that by (auto simp: parseTimes_def Let_def split: sum.splits if_splits)
  have fails: "\<exists>e'. parseTimes D timeMsec timeLocal weekday = Inl e'"
    if "Atoi weekday \<noteq> Inr (Weekday (fst (time_Parse timeLocal)))"
  proof (cases "parseTimes D timeMsec timeLocal weekday")
    case (Inl e')
    then show ?thesis by blast
  next
    case (Inr p)
    with ok [of "fst p" "snd p"] that show ?thesis by simp
  qed
  have r: "0 \<le> Weekday (fst (time_Parse timeLocal)) \<and> Weekday (fst (time_Parse timeLocal)) \<le> 6"
    by (rule Weekday_range)
  show ?thesis
  proof (intro conjI allI impI)
    fix e assume "Atoi weekday = Inl e"
    then show "\<exists>e'. parseTimes D timeMsec timeLocal weekday = Inl e'" by (intro fails) simp
  next
    fix day assume "Atoi weekday = Inr day \<and> (day < 0 \<or> 6 < day)"
    with r show "\<exists>e'. parseTimes D timeMsec timeLocal weekday = Inl e'" by (intro fails) auto
  next
    fix day assume "Atoi weekday = Inr day \<and> day \<noteq> Weekday (fst (time_Parse timeLocal))"
    then show "\<exists>e'. parseTimes D timeMsec timeLocal weekday = Inl e'" by (intro fails) auto
  next
    fix t offset assume "parseTimes D timeMsec timeLocal weekday = Inr (t, offset)"
    then show "Atoi weekday = Inr (Weekday (fst (time_Parse timeLocal)))" by (rule ok)
  qed
qed

theorem parseTimes_weekday_witness:
  "time_Parse ''2021-06-07 10:00:00.000''
      = (\<lparr>unixNano = 1623060000000000000, zoneOffset = 0\<rparr>, None)
   \<and> Weekday (fst (time_Parse ''2021-06-07 10:00:00.000'')) = 1
   \<and> Atoi ''0'' = Inr 0
   \<and> parseTimes sampleDeps ''1623060000000'' ''2021-06-07 10:00:00.000'' ''0''
        = Inl (InconsistentWeekday 0 1)
   \<and> Atoi ''Mon'' = Inl AtoiError
   \<and> (\<exists>e. parseTimes sampleDeps ''1623060000000'' ''2021-06-07 10:00:00.000'' ''Mon'' = Inl e)
   \<and> Atoi ''8'' = Inr 8
   \<and> (\<exists>e. parseTimes sampleDeps ''1623060000000'' ''2021-06-07 10:00:00.000'' ''8'' = Inl e)
   \<and> parseTimes sampleDeps ''1623060000000'' ''2021-06-07 10:00:00.000'' ''1''
        = Inr (\<lparr>unixNano = 1623060000000000000, zoneOffset = 0\<rparr>, 0)
   \<and> Atoi ''1'' = Inr (Weekday (fst (time_Parse ''2021-06-07 10:00:00.000'')))"
proof -
  have t: "time_Parse ''2021-06-07 10:00:00.000''
      = (\<lparr>unixNano = 1623060000000000000, zoneOffset = 0\<rparr>, None)" by code_simp
  have w: "Weekday (fst (time_Parse ''2021-06-07 10:00:00.000'')) = 1" by code_simp
  have a0: "Atoi ''0'' = Inr 0" by code_simp
  have am: "Atoi ''Mon'' = Inl AtoiError" by code_simp
  have a8: "Atoi ''8'' = Inr 8" by code_simp
  have e0: "parseTimes sampleDeps ''1623060000000'' ''2021-06-07 10:00:00.000'' ''0''
        = Inl (InconsistentWeekday 0 1)" by code_simp
  have e1: "parseTimes sampleDeps ''1623060000000'' ''2021-06-07 10:00:00.000'' ''1''
        = Inr (\<lparr>unixNano = 1623060000000000000, zoneOffset = 0\<rparr>, 0)" by code_simp
  from parseTimes_weekday [of "''Mon''" sampleDeps "''1623060000000''" "''2021-06-07 10:00:00.000''"] am
  have rm: "\<exists>e. parseTimes sampleDeps ''1623060000000'' ''2021-06-07 10:00:00.000'' ''Mon'' = Inl e"
    by blast
  from parseTimes_weekday [of "''8''" sampleDeps "''1623060000000''" "''2021-06-07 10:00:00.000''"] a8
  have r8: "\<exists>e. parseTimes sampleDeps ''1623060000000'' ''2021-06-07 10:00:00.000'' ''8'' = Inl e"
    by auto
  from parseTimes_weekday [of "''1''" sampleDeps "''1623060000000''" "''2021-06-07 10:00:00.000''"] e1
  have r1: "Atoi ''1'' = Inr (Weekday (fst (time_Parse ''2021-06-07 10:00:00.000'')))"
    by blast
  from t w a0 am a8 e0 e1 rm r8 r1 show ?thesis by simp
qed

text \<open>
  Claim C3 does not hold of the code. The error of \<^verbatim>\<open>time.Parse\<close> is never
  looked at, and the zero \<^verbatim>\<open>Time\<close> (0001-01-01 00:00:00 UTC) takes the place of a
  local time that does not match the layout. For the local time
  \<^verbatim>\<open>2013-11-16 14:49:18\<close>, which lacks the milliseconds, and the millisecond
  time of the example in the source, the failure reported is a fractional time
  difference (the largest \<^verbatim>\<open>Duration\<close>), not the error of the parser; and for the
  millisecond time \<^verbatim>\<open>-62135596800000\<close>, which is 0001-01-01 00:00:00 UTC, and
  the weekday \<^verbatim>\<open>1\<close> (0001-01-01 was a Monday), \<^verbatim>\<open>parseTimes\<close> succeeds
  with the offset 0.
\<close>

theorem parseTimes_unchecked_time_Parse:
  "time_Parse ''2013-11-16 14:49:18'' = (zeroTime, Some TimeParseError)
   \<and> parseTimes sampleDeps ''1384634958041.754'' ''2013-11-16 14:49:18'' ''6''
        = Inl (FractionalDifference maxDuration)
   \<and> parseTimes sampleDeps ''-62135596800000'' ''2013-11-16 14:49:18'' ''1''
        = Inr (zeroTime, 0)"
  by (intro conjI; code_simp)

subsection \<open>Sessions\<close>

lemma Sub_whole_seconds:
  "Sub t u = k * Second \<Longrightarrow> unixNano t = unixNano u + k * Second"
proof -
  assume a: "Sub t u = k * Second"
  have m1: "maxDuration mod Second \<noteq> 0" by (simp add: maxDuration_def Second_def)
  have m2: "minDuration mod Second \<noteq> 0" by (simp add: minDuration_def Second_def)
  have k: "(k * Second) mod Second = 0" by simp
  from a k have z: "Sub t u mod Second = 0" by simp
  have "Sub t u = unixNano t - unixNano u"
  proof (cases "maxDuration < unixNano t - unixNano u")
    case True
    with z m1 show ?thesis by (simp add: Sub_def)
  next
    case False
    show ?thesis
    proof (cases "unixNano t - unixNano u < minDuration")
      case True
      with False z m2 show ?thesis by (simp add: Sub_def)
    next
      case False
      with \<open>\<not> maxDuration < unixNano t - unixNano u\<close> show ?thesis by (simp add: Sub_def)
    qed
  qed
  with a show ?thesis by simp
qed

lemma parseTimes_result:
  "parseTimes D timeMsec timeLocal weekday = Inr (t, offset) \<Longrightarrow>
     unixNano (Truncate_Millisecond t) = unixNano (fst (time_Parse timeLocal)) + offset * Second"
proof -
  assume s: "parseTimes D timeMsec timeLocal weekday = Inr (t, offset)"
  then have p: "timefmt_Parse D timeMsec = Inr t"
    by (auto simp: parseTimes_def Let_def split: sum.splits if_splits)
  from s p have z: "Sub (Truncate_Millisecond t) (fst (time_Parse timeLocal)) mod Second = 0"
    by (auto simp: parseTimes_def Let_def smod_Second_zero split: if_splits)
  from s p z have "offset = Sub (Truncate_Millisecond t) (fst (time_Parse timeLocal)) div Second"
    by (auto simp: parseTimes_def Let_def smod_Second_zero sdiv_Second_div
             split: if_splits sum.splits)
  with z have "Sub (Truncate_Millisecond t) (fst (time_Parse timeLocal)) = offset * Second"
    by (simp add: mod_eq_0_iff_dvd)
  then show ?thesis by (rule Sub_whole_seconds)
qed

lemma resolves_fields:
  "resolves D fs offset \<Longrightarrow>
     \<exists>rawURL host domain timeMsec timeLocal weekday transition title t.
       fs = [rawURL, host, domain, timeMsec, timeLocal, weekday, transition, title]
       \<and> checkURL D rawURL host domain = None
       \<and> parseTimes D timeMsec timeLocal weekday = Inr (t, offset)"
  by (auto simp: resolves_def split: list.splits sum.splits prod.splits)

lemma decodeRecord_first:
  assumes "resolves D fs offset" and "recordNo r = 1"
  shows "tz (snd (decodeRecord D r fs)) = offset \<and> recordNo (snd (decodeRecord D r fs)) = 1"
proof -
  from resolves_fields [OF assms(1)] obtain rawURL host domain timeMsec timeLocal weekday transition title t
    where f: "fs = [rawURL, host, domain, timeMsec, timeLocal, weekday, transition, title]"
      and c: "checkURL D rawURL host domain = None"
      and p: "parseTimes D timeMsec timeLocal weekday = Inr (t, offset)" by blast
  from f c p assms(2) show ?thesis
    by (simp add: decodeRecord_def readAnalysisVisit_def Let_def split: sum.splits)
qed

lemma decodeRecord_wellFormed:
  assumes "wellFormed D fs offset" and "recordNo r = 1 \<or> tz r = offset"
  shows "\<exists>v r'. decodeRecord D r fs = (Inr v, r') \<and> agrees offset fs v
               \<and> tz r' = offset \<and> recordNo r' = recordNo r"
proof -
  from assms(1) have res: "resolves D fs offset" by (simp add: wellFormed_def)
  from resolves_fields [OF res] obtain rawURL host domain timeMsec timeLocal weekday transition title t
    where f: "fs = [rawURL, host, domain, timeMsec, timeLocal, weekday, transition, title]"
      and c: "checkURL D rawURL host domain = None"
      and p: "parseTimes D timeMsec timeLocal weekday = Inr (t, offset)" by blast
  from assms(1) f obtain tr where ty: "PageTransitionFromString D transition = Inr tr"
    by (auto simp: wellFormed_def split: sum.splits)
  from parseTimes_result [OF p]
  have a: "unixNano (Truncate_Millisecond t) = unixNano (fst (time_Parse timeLocal)) + offset * Second" .
  from f c p ty assms(2) a show ?thesis
    by (auto simp: decodeRecord_def readAnalysisVisit_def agrees_def)
qed

lemma decodeRecord_drift:
  assumes "resolves D fs offset" and "recordNo r \<noteq> 1" and "tz r \<noteq> offset"
  shows "decodeRecord D r fs = (Inl (TimezoneDiffers offset (tz r)), r)"
proof -
  from resolves_fields [OF assms(1)] obtain rawURL host domain timeMsec timeLocal weekday transition title t
    where f: "fs = [rawURL, host, domain, timeMsec, timeLocal, weekday, transition, title]"
      and c: "checkURL D rawURL host domain = None"
      and p: "parseTimes D timeMsec timeLocal weekday = Inr (t, offset)" by blast
  from f c p assms(2,3) show ?thesis
    by (simp add: decodeRecord_def readAnalysisVisit_def)
qed

lemma decodeRecord_later_state:
  "recordNo r \<noteq> 1 \<Longrightarrow> snd (decodeRecord D r fs) = r"
proof -
  assume n: "recordNo r \<noteq> 1"
  have "snd (case fs of
        [rawURL, host, domain, timeMsec, timeLocal, weekday, transition, title] \<Rightarrow>
          readAnalysisVisit D r rawURL host domain timeMsec timeLocal weekday transition title
      | _ \<Rightarrow> (Inl WrongFieldCount, r)) = r"
    using n by (simp add: readAnalysisVisit_def split: list.splits option.splits sum.splits prod.splits)
  then show ?thesis by (simp add: decodeRecord_def)
qed

lemma decodeSession_later_tz:
  "1 \<le> recordNo r \<Longrightarrow> tz (snd (decodeSession D r fss)) = tz r"
proof (induction fss arbitrary: r)
  case Nil
  show ?case by simp
next
  case (Cons fs fss)
  let ?r1 = "r\<lparr>recordNo := recordNo r + 1\<rparr>"
  from Cons.prems have n: "recordNo ?r1 \<noteq> 1" by simp
  from decodeRecord_later_state [OF n] have s: "snd (decodeRecord D ?r1 fs) = ?r1" .
  show ?case
  proof (cases "decodeRecord D ?r1 fs")
    case (Pair res r2)
    with s have r2: "r2 = ?r1" by simp
    show ?thesis
    proof (cases res)
      case (Inl err)
      with Pair r2 show ?thesis by (simp add: Let_def)
    next
      case (Inr v)
      from Cons.prems have "1 \<le> recordNo ?r1" by simp
      from Cons.IH [OF this] have "tz (snd (decodeSession D ?r1 fss)) = tz r" by simp
      with Pair r2 Inr show ?thesis by (simp add: Let_def split_beta)
    qed
  qed
qed

lemma decodeSession_later_wellFormed:
  "1 \<le> recordNo r \<Longrightarrow> \<forall>fs \<in> set fss. wellFormed D fs (tz r) \<Longrightarrow>
     \<exists>vs r'. decodeSession D r fss = ((vs, None), r') \<and> list_all2 (agrees (tz r)) fss vs"
proof (induction fss arbitrary: r)
  case Nil
  show ?case by simp
next
  case (Cons fs fss)
  let ?r1 = "r\<lparr>recordNo := recordNo r + 1\<rparr>"
  from Cons.prems have w: "wellFormed D fs (tz ?r1)" by simp
  have c: "recordNo ?r1 = 1 \<or> tz ?r1 = tz ?r1" by simp
  from decodeRecord_wellFormed [OF w c] obtain v r2
    where d: "decodeRecord D ?r1 fs = (Inr v, r2)" and a: "agrees (tz r) fs v"
      and t: "tz r2 = tz r" and n: "recordNo r2 = recordNo r + 1" by auto
  from Cons.prems n t have "1 \<le> recordNo r2" and "\<forall>fs \<in> set fss. wellFormed D fs (tz r2)"
    by simp_all
  from Cons.IH [OF this] t obtain vs r'
    where "decodeSession D r2 fss = ((vs, None), r')" and "list_all2 (agrees (tz r)) fss vs"
    by auto
  with d a show ?case by (simp add: Let_def)
qed

text \<open>
  Claim C2, as amended. A session starts with the record number 0.
  \<^item> When every record of a stream that is not empty is well formed and resolves
    with the same offset, the session decodes every record, ends without a failure
    with that offset as the learned one, and the instant of every visit, truncated to
    the millisecond, is the local time of its record plus the offset.
  \<^item> When the first record is well formed and the second resolves with another
    offset, the session fails at record 2 with the error of the timezone check, after
    the visit of record 1, and the learned offset is still the one of record 1.
  \<^item> Once the first record has resolved with an offset, that offset is the learned
    offset at the end of the session, whatever the other records are.
\<close>

theorem decodeSession_offset:
  "recordNo r = 0 \<Longrightarrow>
     (fss \<noteq> [] \<and> (\<forall>fs \<in> set fss. wellFormed D fs offset) \<longrightarrow>
        (\<exists>vs r'. decodeSession D r fss = ((vs, None), r')
                 \<and> list_all2 (agrees offset) fss vs \<and> tz r' = offset))
   \<and> (wellFormed D fs1 offset \<and> resolves D fs2 offset2 \<and> offset2 \<noteq> offset \<longrightarrow>
        (\<exists>v1 r'. decodeSession D r (fs1 # fs2 # rest)
                    = (([v1], Some (2, TimezoneDiffers offset2 offset)), r')
                 \<and> agrees offset fs1 v1 \<and> tz r' = offset))
   \<and> (resolves D fs1 offset \<longrightarrow> tz (snd (decodeSession D r (fs1 # rest))) = offset)"
proof (intro conjI impI)
  assume r0: "recordNo r = 0"
  let ?r1 = "r\<lparr>recordNo := recordNo r + 1\<rparr>"
  from r0 have one: "recordNo ?r1 = 1" by simp
  then have c: "recordNo ?r1 = 1 \<or> tz ?r1 = offset" by simp
  {
    assume a: "fss \<noteq> [] \<and> (\<forall>fs \<in> set fss. wellFormed D fs offset)"
    then obtain fs fss' where l: "fss = fs # fss'" by (cases fss) auto
    with a have w: "wellFormed D fs offset" and ws: "\<forall>fs \<in> set fss'. wellFormed D fs offset"
      by simp_all
    from decodeRecord_wellFormed [OF w c] one obtain v r2
      where d: "decodeRecord D ?r1 fs = (Inr v, r2)" and ag: "agrees offset fs v"
        and t2: "tz r2 = offset" and n2: "recordNo r2 = 1" by auto
    from n2 have g: "1 \<le> recordNo r2" by simp
    from ws t2 have ws2: "\<forall>fs \<in> set fss'. wellFormed D fs (tz r2)" by simp
    from decodeSession_later_wellFormed [OF g ws2] t2 obtain vs r'
      where s: "decodeSession D r2 fss' = ((vs, None), r')"
        and al: "list_all2 (agrees offset) fss' vs" by auto
    from decodeSession_later_tz [OF g, of D fss'] s t2 have "tz r' = offset" by simp
    with l d ag s al
    show "\<exists>vs r'. decodeSession D r fss = ((vs, None), r')
                 \<and> list_all2 (agrees offset) fss vs \<and> tz r' = offset"
      by (simp add: Let_def)
  }
  {
    assume a: "wellFormed D fs1 offset \<and> resolves D fs2 offset2 \<and> offset2 \<noteq> offset"
    then have w: "wellFormed D fs1 offset" and rs: "resolves D fs2 offset2"
      and ne: "offset2 \<noteq> offset" by simp_all
    from decodeRecord_wellFormed [OF w c] one obtain v r2
      where d: "decodeRecord D ?r1 fs1 = (Inr v, r2)" and ag: "agrees offset fs1 v"
        and t2: "tz r2 = offset" and n2: "recordNo r2 = 1" by auto
    let ?r3 = "r2\<lparr>recordNo := recordNo r2 + 1\<rparr>"
    from n2 have n3: "recordNo ?r3 \<noteq> 1" by simp
    from t2 ne have t3: "tz ?r3 \<noteq> offset2" by simp
    from decodeRecord_drift [OF rs n3 t3] t2 n2
    have d2: "decodeRecord D ?r3 fs2 = (Inl (TimezoneDiffers offset2 offset), ?r3)" by simp
    from d d2 ag t2 n2
    show "\<exists>v1 r'. decodeSession D r (fs1 # fs2 # rest)
                    = (([v1], Some (2, TimezoneDiffers offset2 offset)), r')
                 \<and> agrees offset fs1 v1 \<and> tz r' = offset"
      by (simp add: Let_def)
  }
  {
    assume rs: "resolves D fs1 offset"
    from decodeRecord_first [OF rs one]
    have t2: "tz (snd (decodeRecord D ?r1 fs1)) = offset"
      and n2: "recordNo (snd (decodeRecord D ?r1 fs1)) = 1" by simp_all
    show "tz (snd (decodeSession D r (fs1 # rest))) = offset"
    proof (cases "decodeRecord D ?r1 fs1")
      case (Pair res r2)
      with t2 n2 have t: "tz r2 = offset" and g: "1 \<le> recordNo r2" by simp_all
      show ?thesis
      proof (cases res)
        case (Inl err)
        with Pair t show ?thesis by (simp add: Let_def)
      next
        case (Inr v)
        from decodeSession_later_tz [OF g, of D rest] t
        have "tz (snd (decodeSession D r2 rest)) = offset" by simp
        with Pair Inr show ?thesis by (simp add: Let_def split_beta)
      qed
    qed
  }
qed

theorem decodeSession_offset_witness:
  "recordNo newReader = 0
   \<and> wellFormed sampleDeps record1 21600 \<and> wellFormed sampleDeps record2 21600
   \<and> resolves sampleDeps driftRecord 18000
   \<and> (\<exists>vs r'. decodeSession sampleDeps newReader [record1, record2] = ((vs, None), r')
               \<and> list_all2 (agrees 21600) [record1, record2] vs \<and> tz r' = 21600)
   \<and> (\<exists>v1 r'. decodeSession sampleDeps newReader [record1, driftRecord, record2]
                  = (([v1], Some (2, TimezoneDiffers 18000 21600)), r')
               \<and> agrees 21600 record1 v1 \<and> tz r' = 21600)
   \<and> tz (snd (decodeSession sampleDeps newReader [record1, driftRecord, record2])) = 21600"
proof -
  have r0: "recordNo newReader = 0" by (simp add: newReader_def)
  have w1: "wellFormed sampleDeps record1 21600" by code_simp
  have w2: "wellFormed sampleDeps record2 21600" by code_simp
  have rd: "resolves sampleDeps driftRecord 18000" by code_simp
  have rs1: "resolves sampleDeps record1 21600" using w1 by (simp add: wellFormed_def)
  have a: "\<exists>vs r'. decodeSession sampleDeps newReader [record1, record2] = ((vs, None), r')
               \<and> list_all2 (agrees 21600) [record1, record2] vs \<and> tz r' = 21600"
    by (rule decodeSession_offset [OF r0, THEN conjunct1, THEN mp]) (simp add: w1 w2)
  have b: "\<exists>v1 r'. decodeSession sampleDeps newReader [record1, driftRecord, record2]
                  = (([v1], Some (2, TimezoneDiffers 18000 21600)), r')
               \<and> agrees 21600 record1 v1 \<and> tz r' = 21600"
    by (rule decodeSession_offset [OF r0, THEN conjunct2, THEN conjunct1, THEN mp])
       (simp add: w1 rd)
  have c: "tz (snd (decodeSession sampleDeps newReader [record1, driftRecord, record2])) = 21600"
    by (rule decodeSession_offset [OF r0, THEN conjunct2, THEN conjunct2, THEN mp]) (rule rs1)
  show ?thesis by (intro conjI) (fact r0 w1 w2 rd a b c)+
qed

text \<open>
  Without the truncation the first part does not hold: the millisecond field keeps
  the fraction of a millisecond that the local time string does not have. The two
  records below share the offset of 21600 seconds and are decoded, and the instant of
  the first visit is 754 microseconds later than its local time plus the offset.
\<close>

theorem decodeSession_instant_counterexample:
  "wellFormed sampleDeps record1 21600 \<and> wellFormed sampleDeps record2 21600
   \<and> fst (decodeSession sampleDeps newReader [record1, record2])
       = ([\<lparr>URL = ''http://example.com/'',
             VisitTime = \<lparr>unixNano = 1384634958041754000, zoneOffset = 0\<rparr>,
             Transition = (Link, 0), PageTitle = ''t''\<rparr>,
           \<lparr>URL = ''http://localhost/x'',
             VisitTime = \<lparr>unixNano = 1384634959000000000, zoneOffset = 0\<rparr>,
             Transition = (Typed, 0), PageTitle = []\<rparr>], None)
   \<and> unixNano (fst (time_Parse (record1 ! 4))) + 21600 * Second = 1384634958041000000
   \<and> 1384634958041754000 \<noteq> unixNano (fst (time_Parse (record1 ! 4))) + 21600 * Second"
  by (intro conjI; code_simp)

end
